theory Spec2Isabelle
  imports Complex_Main
begin

section \<open>JavaScript numbers\<close>

text \<open>
  The force engine of \<^verbatim>\<open>lib/VBOBox.js\<close> computes on JavaScript numbers. A number
  is modelled as a real, or one of the three special values that the kernels can
  produce by dividing by a zero distance or by reading outside the state buffer.
  Finite arithmetic is exact: rounding to double or single precision and overflow
  are not modelled; the constant \<^verbatim>\<open>Math.PI\<close> is the double it is in the source. There is one zero, and a zero divisor counts as \<open>+0\<close>, as
  the lengths and the differences that the kernels divide by are in JavaScript.
\<close>

datatype jsnum = Fin real | PInf | NInf | NaN

fun jneg :: "jsnum \<Rightarrow> jsnum" where
  "jneg (Fin a) = Fin (- a)"
| "jneg PInf = NInf"
| "jneg NInf = PInf"
| "jneg NaN = NaN"

fun jadd :: "jsnum \<Rightarrow> jsnum \<Rightarrow> jsnum" where
  "jadd NaN y = NaN"
| "jadd x NaN = NaN"
| "jadd (Fin a) (Fin b) = Fin (a + b)"
| "jadd (Fin a) PInf = PInf"
| "jadd (Fin a) NInf = NInf"
| "jadd PInf (Fin b) = PInf"
| "jadd NInf (Fin b) = NInf"
| "jadd PInf PInf = PInf"
| "jadd NInf NInf = NInf"
| "jadd PInf NInf = NaN"
| "jadd NInf PInf = NaN"

definition jsub :: "jsnum \<Rightarrow> jsnum \<Rightarrow> jsnum" where
  "jsub x y = jadd x (jneg y)"

text \<open>The sign of an infinite product or quotient: infinity times zero is NaN.\<close>

definition inf_signed :: "real \<Rightarrow> jsnum" where
  "inf_signed a = (if a = 0 then NaN else if 0 < a then PInf else NInf)"

fun jmul :: "jsnum \<Rightarrow> jsnum \<Rightarrow> jsnum" where
  "jmul NaN y = NaN"
| "jmul x NaN = NaN"
| "jmul (Fin a) (Fin b) = Fin (a * b)"
| "jmul (Fin a) PInf = inf_signed a"
| "jmul (Fin a) NInf = inf_signed (- a)"
| "jmul PInf (Fin b) = inf_signed b"
| "jmul NInf (Fin b) = inf_signed (- b)"
| "jmul PInf PInf = PInf"
| "jmul NInf NInf = PInf"
| "jmul PInf NInf = NInf"
| "jmul NInf PInf = NInf"

fun jdiv :: "jsnum \<Rightarrow> jsnum \<Rightarrow> jsnum" where
  "jdiv NaN y = NaN"
| "jdiv x NaN = NaN"
| "jdiv (Fin a) (Fin b) = (if b = 0 then inf_signed a else Fin (a / b))"
| "jdiv (Fin a) PInf = Fin 0"
| "jdiv (Fin a) NInf = Fin 0"
| "jdiv PInf (Fin b) = (if 0 \<le> b then PInf else NInf)"
| "jdiv NInf (Fin b) = (if 0 \<le> b then NInf else PInf)"
| "jdiv PInf PInf = NaN"
| "jdiv NInf NInf = NaN"
| "jdiv PInf NInf = NaN"
| "jdiv NInf PInf = NaN"

text \<open>\<^verbatim>\<open>Math.sqrt\<close>, \<^verbatim>\<open>Math.abs\<close>, \<^verbatim>\<open>Math.min\<close>, \<^verbatim>\<open>Math.cos\<close>, \<^verbatim>\<open>Math.sin\<close>, \<^verbatim>\<open>Math.acos\<close>.\<close>

fun jsqrt :: "jsnum \<Rightarrow> jsnum" where
  "jsqrt (Fin a) = (if a < 0 then NaN else Fin (sqrt a))"
| "jsqrt PInf = PInf"
| "jsqrt NInf = NaN"
| "jsqrt NaN = NaN"

fun jabs :: "jsnum \<Rightarrow> jsnum" where
  "jabs (Fin a) = Fin \<bar>a\<bar>"
| "jabs PInf = PInf"
| "jabs NInf = PInf"
| "jabs NaN = NaN"

fun jmin :: "jsnum \<Rightarrow> jsnum \<Rightarrow> jsnum" where
  "jmin NaN y = NaN"
| "jmin x NaN = NaN"
| "jmin (Fin a) (Fin b) = Fin (min a b)"
| "jmin NInf y = NInf"
| "jmin x NInf = NInf"
| "jmin PInf y = y"
| "jmin x PInf = x"

fun jcos :: "jsnum \<Rightarrow> jsnum" where
  "jcos (Fin a) = Fin (cos a)"
| "jcos x = NaN"

fun jsin :: "jsnum \<Rightarrow> jsnum" where
  "jsin (Fin a) = Fin (sin a)"
| "jsin x = NaN"

fun jacos :: "jsnum \<Rightarrow> jsnum" where
  "jacos (Fin a) = (if - 1 \<le> a \<and> a \<le> 1 then Fin (arccos a) else NaN)"
| "jacos x = NaN"

text \<open>
  \<^verbatim>\<open>Math.PI\<close> is the double nearest to \<open>\<pi>\<close>, a rational number a little below it. The
  model keeps the difference: the vortex turns a particle by a multiple of
  \<^verbatim>\<open>2 * Math.PI\<close>, which is not a whole number of turns.
\<close>

definition pi_double :: real where
  "pi_double = 884279719003555 / 281474976710656"

definition Math_PI :: jsnum where
  "Math_PI = Fin pi_double"

text \<open>
  \<^verbatim>\<open>Math.pow\<close>, case by case as ECMAScript defines it: a zero exponent gives 1 even
  for a NaN base, a negative base needs an integral exponent.
\<close>

definition odd_integer :: "real \<Rightarrow> bool" where
  "odd_integer y = (of_int \<lfloor>y\<rfloor> = y \<and> odd \<lfloor>y\<rfloor>)"

fun jpow :: "jsnum \<Rightarrow> jsnum \<Rightarrow> jsnum" where
  "jpow x NaN = NaN"
| "jpow x (Fin y) =
     (if y = 0 then Fin 1
      else case x of
        NaN \<Rightarrow> NaN
      | PInf \<Rightarrow> (if 0 < y then PInf else Fin 0)
      | NInf \<Rightarrow> (if 0 < y then (if odd_integer y then NInf else PInf) else Fin 0)
      | Fin a \<Rightarrow>
          (if a = 0 then (if 0 < y then Fin 0 else PInf)
           else if 0 < a then Fin (a powr y)
           else if of_int \<lfloor>y\<rfloor> = y
             then Fin ((if odd \<lfloor>y\<rfloor> then - 1 else 1) * (\<bar>a\<bar> powr y))
             else NaN))"
| "jpow x PInf =
     (case x of
        NaN \<Rightarrow> NaN
      | Fin a \<Rightarrow> (if 1 < \<bar>a\<bar> then PInf else if \<bar>a\<bar> = 1 then NaN else Fin 0)
      | PInf \<Rightarrow> PInf
      | NInf \<Rightarrow> PInf)"
| "jpow x NInf =
     (case x of
        NaN \<Rightarrow> NaN
      | Fin a \<Rightarrow> (if 1 < \<bar>a\<bar> then Fin 0 else if \<bar>a\<bar> = 1 then NaN else PInf)
      | PInf \<Rightarrow> Fin 0
      | NInf \<Rightarrow> Fin 0)"

text \<open>Comparisons: every comparison with NaN is false.\<close>

fun jlt :: "jsnum \<Rightarrow> jsnum \<Rightarrow> bool" where
  "jlt NaN y = False"
| "jlt x NaN = False"
| "jlt (Fin a) (Fin b) = (a < b)"
| "jlt x NInf = False"
| "jlt PInf y = False"
| "jlt NInf y = True"
| "jlt x PInf = True"

fun jeq :: "jsnum \<Rightarrow> jsnum \<Rightarrow> bool" where
  "jeq (Fin a) (Fin b) = (a = b)"
| "jeq PInf PInf = True"
| "jeq NInf NInf = True"
| "jeq x y = False"

definition jle :: "jsnum \<Rightarrow> jsnum \<Rightarrow> bool" where
  "jle x y = (jlt x y \<or> jeq x y)"

definition jgt :: "jsnum \<Rightarrow> jsnum \<Rightarrow> bool" where
  "jgt x y = jlt y x"

section \<open>The vector operations of glMatrix\<close>

text \<open>
  The kernels call \<^verbatim>\<open>glMatrix.vec3\<close>, a library outside the repository. Its functions
  are modelled from their documented results; the \<^verbatim>\<open>out\<close> argument, which the
  library overwrites and returns, is the function's value.
\<close>

type_synonym vec3 = "jsnum \<times> jsnum \<times> jsnum"

definition vx :: "vec3 \<Rightarrow> jsnum" where "vx v = fst v"
definition vy :: "vec3 \<Rightarrow> jsnum" where "vy v = fst (snd v)"
definition vz :: "vec3 \<Rightarrow> jsnum" where "vz v = snd (snd v)"

definition vec3_create :: vec3 where
  "vec3_create = (Fin 0, Fin 0, Fin 0)"

definition vec3_sub :: "vec3 \<Rightarrow> vec3 \<Rightarrow> vec3" where
  "vec3_sub a b = (jsub (vx a) (vx b), jsub (vy a) (vy b), jsub (vz a) (vz b))"

definition vec3_add :: "vec3 \<Rightarrow> vec3 \<Rightarrow> vec3" where
  "vec3_add a b = (jadd (vx a) (vx b), jadd (vy a) (vy b), jadd (vz a) (vz b))"

definition vec3_scale :: "vec3 \<Rightarrow> jsnum \<Rightarrow> vec3" where
  "vec3_scale a b = (jmul (vx a) b, jmul (vy a) b, jmul (vz a) b)"

definition vec3_scaleAndAdd :: "vec3 \<Rightarrow> vec3 \<Rightarrow> jsnum \<Rightarrow> vec3" where
  "vec3_scaleAndAdd a b k =
     (jadd (vx a) (jmul (vx b) k), jadd (vy a) (jmul (vy b) k), jadd (vz a) (jmul (vz b) k))"

definition vec3_negate :: "vec3 \<Rightarrow> vec3" where
  "vec3_negate a = (jneg (vx a), jneg (vy a), jneg (vz a))"

definition vec3_dot :: "vec3 \<Rightarrow> vec3 \<Rightarrow> jsnum" where
  "vec3_dot a b =
     jadd (jadd (jmul (vx a) (vx b)) (jmul (vy a) (vy b))) (jmul (vz a) (vz b))"

definition vec3_length :: "vec3 \<Rightarrow> jsnum" where
  "vec3_length a =
     jsqrt (jadd (jadd (jmul (vx a) (vx a)) (jmul (vy a) (vy a))) (jmul (vz a) (vz a)))"

text \<open>\<^verbatim>\<open>normalize\<close> leaves the zero vector as it is.\<close>

definition vec3_normalize :: "vec3 \<Rightarrow> vec3" where
  "vec3_normalize a =
     (let len = jadd (jadd (jmul (vx a) (vx a)) (jmul (vy a) (vy a))) (jmul (vz a) (vz a));
          len' = (if jgt len (Fin 0) then jdiv (Fin 1) (jsqrt len) else len)
      in vec3_scale a len')"

text \<open>The angle between two vectors: the arc cosine of the dot product of their unit vectors.\<close>

definition vec3_angle :: "vec3 \<Rightarrow> vec3 \<Rightarrow> jsnum" where
  "vec3_angle a b =
     (let cosine = vec3_dot (vec3_normalize a) (vec3_normalize b)
      in if jgt cosine (Fin 1) then Fin 0
         else if jlt cosine (Fin (- 1)) then Math_PI
         else jacos cosine)"

text \<open>\<^verbatim>\<open>rotateZ(out, a, b, rad)\<close> rotates the point \<open>a\<close> about the z axis through \<open>b\<close>.\<close>

definition vec3_rotateZ :: "vec3 \<Rightarrow> vec3 \<Rightarrow> jsnum \<Rightarrow> vec3" where
  "vec3_rotateZ a b rad =
     (let p0 = jsub (vx a) (vx b); p1 = jsub (vy a) (vy b); p2 = jsub (vz a) (vz b);
          r0 = jsub (jmul p0 (jcos rad)) (jmul p1 (jsin rad));
          r1 = jadd (jmul p0 (jsin rad)) (jmul p1 (jcos rad));
          r2 = p2
      in (jadd r0 (vx b), jadd r1 (vy b), jadd r2 (vz b)))"

section \<open>The state buffer\<close>

text \<open>
  The state vector \<open>s\<close> is a \<^verbatim>\<open>Float32Array\<close>: reading outside it gives
  \<^verbatim>\<open>undefined\<close>, which every use in the kernels turns into NaN, and writing
  outside it does nothing.
\<close>

type_synonym state = "jsnum list"

definition rd :: "state \<Rightarrow> nat \<Rightarrow> jsnum" where
  "rd s k = (if k < length s then s ! k else NaN)"

definition wr :: "state \<Rightarrow> nat \<Rightarrow> jsnum \<Rightarrow> state" where
  "wr s k v = (if k < length s then s[k := v] else s)"

text \<open>\<^verbatim>\<open>s[k] += v\<close> and \<^verbatim>\<open>s[k] -= v\<close>.\<close>

definition add_to :: "state \<Rightarrow> nat \<Rightarrow> jsnum \<Rightarrow> state" where
  "add_to s k v = wr s k (jadd (rd s k) v)"

definition sub_from :: "state \<Rightarrow> nat \<Rightarrow> jsnum \<Rightarrow> state" where
  "sub_from s k v = wr s k (jsub (rd s k) v)"

text \<open>
  The globals \<^verbatim>\<open>STATE_SIZE\<close> and \<^verbatim>\<open>STATE\<close> (the stride and the field offsets of a
  particle) are declared outside \<^verbatim>\<open>lib/VBOBox.js\<close>; the model takes them as a
  parameter.
\<close>

record layout =
  STATE_SIZE :: nat
  P_X :: nat
  P_Y :: nat
  P_Z :: nat
  V_X :: nat
  V_Y :: nat
  V_Z :: nat
  F_X :: nat
  F_Y :: nat
  F_Z :: nat
  MASS :: nat

text \<open>The index \<^verbatim>\<open>(p * STATE_SIZE) + STATE.field\<close>.\<close>

definition slot :: "layout \<Rightarrow> nat \<Rightarrow> nat \<Rightarrow> nat" where
  "slot L p field = (p * STATE_SIZE L) + field"

definition position :: "layout \<Rightarrow> state \<Rightarrow> nat \<Rightarrow> vec3" where
  "position L s p =
     (rd s (slot L p (P_X L)), rd s (slot L p (P_Y L)), rd s (slot L p (P_Z L)))"

definition velocity :: "layout \<Rightarrow> state \<Rightarrow> nat \<Rightarrow> vec3" where
  "velocity L s p =
     (rd s (slot L p (V_X L)), rd s (slot L p (V_Y L)), rd s (slot L p (V_Z L)))"

definition force_acc :: "layout \<Rightarrow> state \<Rightarrow> nat \<Rightarrow> vec3" where
  "force_acc L s p =
     (rd s (slot L p (F_X L)), rd s (slot L p (F_Y L)), rd s (slot L p (F_Z L)))"

text \<open>The ten fields have distinct offsets inside the stride.\<close>

definition layout_fields :: "layout \<Rightarrow> nat list" where
  "layout_fields L = [P_X L, P_Y L, P_Z L, V_X L, V_Y L, V_Z L, F_X L, F_Y L, F_Z L, MASS L]"

definition wf_layout :: "layout \<Rightarrow> bool" where
  "wf_layout L = (distinct (layout_fields L) \<and> list_all (\<lambda>k. k < STATE_SIZE L) (layout_fields L))"

text \<open>The layout of the specification's example: ten fields, in the order it lists them.\<close>

definition layout10 :: layout where
  "layout10 = \<lparr>STATE_SIZE = 10, P_X = 0, P_Y = 1, P_Z = 2, V_X = 3, V_Y = 4, V_Z = 5,
     F_X = 6, F_Y = 7, F_Z = 8, MASS = 9\<rparr>"

section \<open>Forces\<close>

text \<open>The enumeration \<^verbatim>\<open>FORCE_TYPE\<close>; a force carries its tag as a number.\<close>

definition FORCE_SIMP_GRAVITY :: nat where "FORCE_SIMP_GRAVITY = 0"
definition FORCE_DRAG :: nat where "FORCE_DRAG = 1"
definition FORCE_WIND :: nat where "FORCE_WIND = 2"
definition FORCE_SPRING :: nat where "FORCE_SPRING = 3"
definition FORCE_FLOCK :: nat where "FORCE_FLOCK = 4"
definition FORCE_PLANETARY_GRAVITY :: nat where "FORCE_PLANETARY_GRAVITY = 5"
definition FORCE_LINE_ATTRACTOR :: nat where "FORCE_LINE_ATTRACTOR = 6"
definition FORCE_VORTEX :: nat where "FORCE_VORTEX = 7"
definition FORCE_UNIFORM_POINT_ATTRACTOR :: nat where "FORCE_UNIFORM_POINT_ATTRACTOR = 8"
definition FORCE_POINT_ATTRACTOR :: nat where "FORCE_POINT_ATTRACTOR = 9"

text \<open>
  An object of class \<^verbatim>\<open>Force\<close> after its constructor and the \<^verbatim>\<open>init_\<close> method of
  its variant: the field \<^verbatim>\<open>this._k\<close> is \<open>f_k\<close>, and so on. A numeric field that
  was never set is \<^verbatim>\<open>undefined\<close> in the source and behaves as NaN. The vectors
  \<^verbatim>\<open>_x_a\<close> and \<^verbatim>\<open>_a\<close> are always vectors here: on an attractor that never ran
  \<^verbatim>\<open>init_attractor\<close> the library raises a \<^verbatim>\<open>TypeError\<close> at the first target, before
  any write, and that call is not represented.
\<close>

record force =
  f_type :: nat
  f_p :: "nat list"
  f_enabled :: bool
  f_magnitude :: jsnum
  f_x :: jsnum
  f_y :: jsnum
  f_z :: jsnum
  f_k :: jsnum
  f_lr :: jsnum
  f_d :: jsnum
  f_r1 :: jsnum
  f_r2 :: jsnum
  f_t1 :: jsnum
  f_t2 :: jsnum
  f_ka :: jsnum
  f_kv :: jsnum
  f_kc :: jsnum
  f_koa :: jsnum
  f_kgs :: jsnum
  f_x_a :: vec3
  f_a :: vec3
  f_pow :: jsnum
  f_L :: jsnum
  f_r :: jsnum

text \<open>
  The constructor sets the type, the targets and \<^verbatim>\<open>_enabled = true\<close>; every other
  field is \<^verbatim>\<open>undefined\<close> until an \<^verbatim>\<open>init_\<close> method sets it.
\<close>

definition new_force :: "nat \<Rightarrow> nat list \<Rightarrow> force" where
  "new_force type affected_particles =
     \<lparr>f_type = type, f_p = affected_particles, f_enabled = True,
      f_magnitude = NaN, f_x = NaN, f_y = NaN, f_z = NaN,
      f_k = NaN, f_lr = NaN, f_d = NaN,
      f_r1 = NaN, f_r2 = NaN, f_t1 = NaN, f_t2 = NaN,
      f_ka = NaN, f_kv = NaN, f_kc = NaN, f_koa = NaN, f_kgs = NaN,
      f_x_a = (NaN, NaN, NaN), f_a = (NaN, NaN, NaN), f_pow = NaN, f_L = NaN, f_r = NaN\<rparr>"

definition init_vectored :: "jsnum \<Rightarrow> jsnum \<Rightarrow> jsnum \<Rightarrow> jsnum \<Rightarrow> force \<Rightarrow> force" where
  "init_vectored magnitude x y z f = f\<lparr>f_magnitude := magnitude, f_x := x, f_y := y, f_z := z\<rparr>"

definition init_spring :: "jsnum \<Rightarrow> jsnum \<Rightarrow> jsnum \<Rightarrow> force \<Rightarrow> force" where
  "init_spring k len damp f = f\<lparr>f_k := k, f_lr := len, f_d := damp\<rparr>"

definition init_boid ::
    "jsnum \<Rightarrow> jsnum \<Rightarrow> jsnum \<Rightarrow> jsnum \<Rightarrow> jsnum \<Rightarrow> jsnum \<Rightarrow> jsnum \<Rightarrow> jsnum \<Rightarrow> jsnum \<Rightarrow> force \<Rightarrow> force" where
  "init_boid min_rad max_rad binocular_angle monocular_angle k_a k_v k_c k_oa k_gs f =
     f\<lparr>f_r1 := min_rad, f_r2 := max_rad, f_t1 := binocular_angle, f_t2 := monocular_angle,
       f_ka := k_a, f_kv := k_v, f_kc := k_c, f_koa := k_oa, f_kgs := k_gs\<rparr>"

definition init_attractor :: "vec3 \<Rightarrow> vec3 \<Rightarrow> jsnum \<Rightarrow> jsnum \<Rightarrow> jsnum \<Rightarrow> force \<Rightarrow> force" where
  "init_attractor x a p l r f = f\<lparr>f_x_a := x, f_a := a, f_pow := p, f_L := l, f_r := r\<rparr>"

definition enable :: "force \<Rightarrow> force" where
  "enable f = f\<lparr>f_enabled := True\<rparr>"

definition disable :: "force \<Rightarrow> force" where
  "disable f = f\<lparr>f_enabled := False\<rparr>"

text \<open>
  The globals the flocking kernel reads: \<^verbatim>\<open>BOID_PARTICLE_COUNT\<close>, whose last
  particle is the predator, and the goal \<^verbatim>\<open>boid.force_set[3]\<close>.
\<close>

record env =
  BOID_PARTICLE_COUNT :: nat
  goal :: vec3

text \<open>
  Every kernel but the vortex ends with the three statements that add a vector to
  the force accumulator of a particle; the vortex adds to the velocity.
\<close>

definition add_acc :: "layout \<Rightarrow> nat \<Rightarrow> vec3 \<Rightarrow> state \<Rightarrow> state" where
  "add_acc L p v s =
     (let s1 = add_to s (slot L p (F_X L)) (vx v);
          s2 = add_to s1 (slot L p (F_Y L)) (vy v)
      in add_to s2 (slot L p (F_Z L)) (vz v))"

definition add_vel :: "layout \<Rightarrow> nat \<Rightarrow> vec3 \<Rightarrow> state \<Rightarrow> state" where
  "add_vel L p v s =
     (let s1 = add_to s (slot L p (V_X L)) (vx v);
          s2 = add_to s1 (slot L p (V_Y L)) (vy v)
      in add_to s2 (slot L p (V_Z L)) (vz v))"

subsection \<open>Gravity, drag and wind\<close>

definition gravity_step :: "layout \<Rightarrow> force \<Rightarrow> nat \<Rightarrow> state \<Rightarrow> state" where
  "gravity_step L f p s =
     add_to s (slot L p (F_Z L)) (jmul (rd s (slot L p (MASS L))) (f_magnitude f))"

definition drag_step :: "layout \<Rightarrow> force \<Rightarrow> nat \<Rightarrow> state \<Rightarrow> state" where
  "drag_step L f p s =
     (let s1 = sub_from s (slot L p (F_X L))
                 (jmul (rd s (slot L p (V_X L))) (jmul (f_x f) (f_magnitude f)));
          s2 = sub_from s1 (slot L p (F_Y L))
                 (jmul (rd s1 (slot L p (V_Y L))) (jmul (f_y f) (f_magnitude f)))
      in sub_from s2 (slot L p (F_Z L))
           (jmul (rd s2 (slot L p (V_Z L))) (jmul (f_z f) (f_magnitude f))))"

text \<open>
  \<open>rnd n\<close> is the result of the \<open>n\<close>-th call of \<^verbatim>\<open>Math.random()\<close> during one
  \<^verbatim>\<open>apply\<close>; the wind draws three numbers for each target.
\<close>

definition gust :: "real \<Rightarrow> jsnum" where
  "gust u = jsub (jmul (Fin u) (Fin 2)) (Fin 1)"

definition wind_step :: "layout \<Rightarrow> force \<Rightarrow> (nat \<Rightarrow> real) \<Rightarrow> nat \<Rightarrow> state \<Rightarrow> state" where
  "wind_step L f rnd i s =
     (let p = f_p f ! i;
          s1 = add_to s (slot L p (F_X L))
                 (jmul (jmul (f_x f) (f_magnitude f)) (gust (rnd (3 * i))));
          s2 = add_to s1 (slot L p (F_Y L))
                 (jmul (jmul (f_y f) (f_magnitude f)) (gust (rnd (3 * i + 1))))
      in add_to s2 (slot L p (F_Z L))
           (jmul (jmul (f_z f) (f_magnitude f)) (gust (rnd (3 * i + 2)))))"

subsection \<open>Spring\<close>

text \<open>
  The spring reads \<^verbatim>\<open>this._p[0]\<close> and \<^verbatim>\<open>this._p[1]\<close>. With fewer than two targets
  the index is \<^verbatim>\<open>undefined\<close>: the read gives NaN and the write is lost.
\<close>

definition target :: "force \<Rightarrow> nat \<Rightarrow> nat option" where
  "target f i = (if i < length (f_p f) then Some (f_p f ! i) else None)"

definition slot_of :: "layout \<Rightarrow> nat option \<Rightarrow> nat \<Rightarrow> nat option" where
  "slot_of L t field = map_option (\<lambda>p. slot L p field) t"

definition rd_at :: "state \<Rightarrow> nat option \<Rightarrow> jsnum" where
  "rd_at s k = (case k of None \<Rightarrow> NaN | Some i \<Rightarrow> rd s i)"

definition add_at :: "state \<Rightarrow> nat option \<Rightarrow> jsnum \<Rightarrow> state" where
  "add_at s k v = (case k of None \<Rightarrow> s | Some i \<Rightarrow> add_to s i v)"

definition spring_L :: "layout \<Rightarrow> force \<Rightarrow> state \<Rightarrow> vec3" where
  "spring_L L f s =
     (jsub (rd_at s (slot_of L (target f 1) (P_X L))) (rd_at s (slot_of L (target f 0) (P_X L))),
      jsub (rd_at s (slot_of L (target f 1) (P_Y L))) (rd_at s (slot_of L (target f 0) (P_Y L))),
      jsub (rd_at s (slot_of L (target f 1) (P_Z L))) (rd_at s (slot_of L (target f 0) (P_Z L))))"

definition spring_distance :: "layout \<Rightarrow> force \<Rightarrow> state \<Rightarrow> jsnum" where
  "spring_distance L f s =
     (let l = spring_L L f s
      in jsqrt (jadd (jadd (jpow (vx l) (Fin 2)) (jpow (vy l) (Fin 2))) (jpow (vz l) (Fin 2))))"

text \<open>Hooke's law on each axis, limited to 12 from above.\<close>

definition spring_axis :: "force \<Rightarrow> jsnum \<Rightarrow> jsnum \<Rightarrow> jsnum" where
  "spring_axis f distance l =
     jmin (jdiv (jmul (jmul (f_k f) (jsub distance (f_lr f))) l) distance) (Fin 12)"

definition spring_F :: "layout \<Rightarrow> force \<Rightarrow> state \<Rightarrow> vec3" where
  "spring_F L f s =
     (let l = spring_L L f s; distance = spring_distance L f s
      in (spring_axis f distance (vx l), spring_axis f distance (vy l),
          spring_axis f distance (vz l)))"

definition spring_apply :: "layout \<Rightarrow> force \<Rightarrow> state \<Rightarrow> state" where
  "spring_apply L f s =
     (let F = spring_F L f s;
          s1 = add_at s (slot_of L (target f 0) (F_X L)) (vx F);
          s2 = add_at s1 (slot_of L (target f 0) (F_Y L)) (vy F);
          s3 = add_at s2 (slot_of L (target f 0) (F_Z L)) (vz F);
          s4 = add_at s3 (slot_of L (target f 1) (F_X L)) (jneg (vx F));
          s5 = add_at s4 (slot_of L (target f 1) (F_Y L)) (jneg (vy F))
      in add_at s5 (slot_of L (target f 1) (F_Z L)) (jneg (vz F)))"

subsection \<open>Flock\<close>

text \<open>The predator's position: particle \<^verbatim>\<open>BOID_PARTICLE_COUNT - 1\<close>, which is -1 for an empty flock.\<close>

definition rd_int :: "state \<Rightarrow> int \<Rightarrow> jsnum" where
  "rd_int s k = (if 0 \<le> k then rd s (nat k) else NaN)"

definition predator :: "layout \<Rightarrow> env \<Rightarrow> state \<Rightarrow> vec3" where
  "predator L E s =
     (rd_int s ((int (BOID_PARTICLE_COUNT E) - 1) * int (STATE_SIZE L) + int (P_X L)),
      rd_int s ((int (BOID_PARTICLE_COUNT E) - 1) * int (STATE_SIZE L) + int (P_Y L)),
      rd_int s ((int (BOID_PARTICLE_COUNT E) - 1) * int (STATE_SIZE L) + int (P_Z L)))"

text \<open>
  The neighbour \<open>j\<close> of the boid \<open>i\<close> (both are positions in the target list):
  the vector to it, its distance, and the angle between that vector and the
  neighbour's velocity.
\<close>

definition flock_x_ij :: "layout \<Rightarrow> force \<Rightarrow> state \<Rightarrow> nat \<Rightarrow> nat \<Rightarrow> vec3" where
  "flock_x_ij L f s i j = vec3_sub (position L s (f_p f ! j)) (position L s (f_p f ! i))"

definition flock_d_ij :: "layout \<Rightarrow> force \<Rightarrow> state \<Rightarrow> nat \<Rightarrow> nat \<Rightarrow> jsnum" where
  "flock_d_ij L f s i j = vec3_length (flock_x_ij L f s i j)"

definition flock_t_ij :: "layout \<Rightarrow> force \<Rightarrow> state \<Rightarrow> nat \<Rightarrow> nat \<Rightarrow> jsnum" where
  "flock_t_ij L f s i j = vec3_angle (flock_x_ij L f s i j) (velocity L s (f_p f ! j))"

text \<open>The test before \<^verbatim>\<open>continue\<close>: the same boid, too far away, or in a blind spot.\<close>

definition flock_skip :: "layout \<Rightarrow> force \<Rightarrow> state \<Rightarrow> nat \<Rightarrow> nat \<Rightarrow> bool" where
  "flock_skip L f s i j =
     (i = j \<or> jeq (flock_d_ij L f s i j) (Fin 0) \<or> jgt (flock_d_ij L f s i j) (f_r2 f)
      \<or> jgt (flock_t_ij L f s i j) (jmul (f_t2 f) (Fin 0.5)))"

definition flock_k_d :: "force \<Rightarrow> jsnum \<Rightarrow> jsnum" where
  "flock_k_d f d_ij =
     (if jlt d_ij (f_r1 f) then Fin 1
      else jdiv (jsub (f_r2 f) d_ij) (jsub (f_r2 f) (f_r1 f)))"

definition flock_k_t :: "force \<Rightarrow> jsnum \<Rightarrow> jsnum" where
  "flock_k_t f t_ij =
     (if jlt t_ij (jmul (f_t1 f) (Fin 0.5)) then Fin 1
      else jdiv (jsub (jmul (f_t2 f) (Fin 0.5)) t_ij)
             (jsub (jmul (f_t2 f) (Fin 0.5)) (jmul (f_t1 f) (Fin 0.5))))"

text \<open>
  The five vectors added to \<open>a_i\<close> for a neighbour that is not skipped. For
  collision avoidance the source first sets \<^verbatim>\<open>x_hat = scale(x_hat, x_ij, d_ij)\<close>.
\<close>

definition flock_x_hat :: "layout \<Rightarrow> force \<Rightarrow> state \<Rightarrow> nat \<Rightarrow> nat \<Rightarrow> vec3" where
  "flock_x_hat L f s i j = vec3_scale (flock_x_ij L f s i j) (flock_d_ij L f s i j)"

definition flock_weight :: "layout \<Rightarrow> force \<Rightarrow> state \<Rightarrow> nat \<Rightarrow> nat \<Rightarrow> jsnum" where
  "flock_weight L f s i j =
     jmul (flock_k_t f (flock_t_ij L f s i j)) (flock_k_d f (flock_d_ij L f s i j))"

definition flock_avoidance :: "layout \<Rightarrow> force \<Rightarrow> state \<Rightarrow> nat \<Rightarrow> nat \<Rightarrow> vec3" where
  "flock_avoidance L f s i j =
     vec3_scale (flock_x_hat L f s i j)
       (jmul (flock_weight L f s i j)
          (jdiv (jmul (Fin (- 1)) (f_ka f)) (flock_d_ij L f s i j)))"

definition flock_matching :: "layout \<Rightarrow> force \<Rightarrow> state \<Rightarrow> nat \<Rightarrow> nat \<Rightarrow> vec3" where
  "flock_matching L f s i j =
     vec3_scale (vec3_sub (velocity L s (f_p f ! j)) (velocity L s (f_p f ! i)))
       (jmul (flock_weight L f s i j) (f_kv f))"

definition flock_centering :: "layout \<Rightarrow> force \<Rightarrow> state \<Rightarrow> nat \<Rightarrow> nat \<Rightarrow> vec3" where
  "flock_centering L f s i j =
     vec3_scale (flock_x_ij L f s i j) (jmul (flock_weight L f s i j) (f_kc f))"

definition flock_obstacle :: "layout \<Rightarrow> force \<Rightarrow> vec3 \<Rightarrow> state \<Rightarrow> nat \<Rightarrow> vec3" where
  "flock_obstacle L f x_p s i =
     (let x_ip = vec3_sub x_p (position L s (f_p f ! i)); d_ip = vec3_length x_ip
      in vec3_scale x_ip (jdiv (jdiv (jmul (Fin (- 1)) (f_koa f)) d_ip) d_ip))"

definition flock_goal :: "layout \<Rightarrow> env \<Rightarrow> force \<Rightarrow> state \<Rightarrow> nat \<Rightarrow> vec3" where
  "flock_goal L E f s i =
     (let x_ig = vec3_sub (goal E) (position L s (f_p f ! i)); d_ig = vec3_length x_ig
      in vec3_scale x_ig (jdiv (f_kgs f) d_ig))"

text \<open>One pass of the inner loop, and the outer loop's body for the boid \<open>i\<close>.\<close>

definition flock_neighbour ::
    "layout \<Rightarrow> env \<Rightarrow> force \<Rightarrow> vec3 \<Rightarrow> state \<Rightarrow> nat \<Rightarrow> nat \<Rightarrow> vec3 \<Rightarrow> vec3" where
  "flock_neighbour L E f x_p s i j a_i =
     (if flock_skip L f s i j then a_i
      else
        vec3_add (vec3_add (vec3_add (vec3_add (vec3_add a_i
          (flock_avoidance L f s i j))
          (flock_matching L f s i j))
          (flock_centering L f s i j))
          (flock_obstacle L f x_p s i))
          (flock_goal L E f s i))"

definition flock_a_i :: "layout \<Rightarrow> env \<Rightarrow> force \<Rightarrow> vec3 \<Rightarrow> state \<Rightarrow> nat \<Rightarrow> vec3" where
  "flock_a_i L E f x_p s i =
     fold (flock_neighbour L E f x_p s i) [0..<length (f_p f)] vec3_create"

definition flock_step :: "layout \<Rightarrow> env \<Rightarrow> force \<Rightarrow> vec3 \<Rightarrow> nat \<Rightarrow> state \<Rightarrow> state" where
  "flock_step L E f x_p i s =
     (let a_i = flock_a_i L E f x_p s i;
          s1 = add_to s (slot L (f_p f ! i) (F_X L)) (vx a_i);
          s2 = add_to s1 (slot L (f_p f ! i) (F_Y L)) (vy a_i)
      in add_to s2 (slot L (f_p f ! i) (F_Z L)) (vz a_i))"

definition flock_apply :: "layout \<Rightarrow> env \<Rightarrow> force \<Rightarrow> state \<Rightarrow> state" where
  "flock_apply L E f s =
     fold (flock_step L E f (predator L E s)) [0..<length (f_p f)] s"

subsection \<open>Line attractor\<close>

text \<open>
  The offset of the particle from the anchor \<open>x_a\<close>, its length \<open>l_ai\<close> along
  the direction \<open>a\<close>, the rest \<open>r_ai\<close> orthogonal to \<open>a\<close>, and the vector added
  to the force accumulator.
\<close>

definition epsilon :: jsnum where
  "epsilon = Fin 0.01"

definition line_x_ai :: "layout \<Rightarrow> force \<Rightarrow> state \<Rightarrow> nat \<Rightarrow> vec3" where
  "line_x_ai L f s p = vec3_sub (position L s p) (f_x_a f)"

definition line_l_ai :: "layout \<Rightarrow> force \<Rightarrow> state \<Rightarrow> nat \<Rightarrow> jsnum" where
  "line_l_ai L f s p = vec3_dot (line_x_ai L f s p) (f_a f)"

definition line_r_ai :: "layout \<Rightarrow> force \<Rightarrow> state \<Rightarrow> nat \<Rightarrow> vec3" where
  "line_r_ai L f s p =
     vec3_scaleAndAdd (line_x_ai L f s p) (f_a f) (jneg (line_l_ai L f s p))"

definition line_in_segment :: "layout \<Rightarrow> force \<Rightarrow> state \<Rightarrow> nat \<Rightarrow> bool" where
  "line_in_segment L f s p =
     (jle epsilon (line_l_ai L f s p) \<and> jlt (line_l_ai L f s p) (f_L f))"

definition line_a_ai :: "layout \<Rightarrow> force \<Rightarrow> state \<Rightarrow> nat \<Rightarrow> vec3" where
  "line_a_ai L f s p =
     (let r_ai = line_r_ai L f s p; r = vec3_length r_ai
      in vec3_scale r_ai (jmul (Fin (- 9.8)) (jpow r (jadd (f_pow f) (Fin 1)))))"

definition line_step :: "layout \<Rightarrow> force \<Rightarrow> nat \<Rightarrow> state \<Rightarrow> state" where
  "line_step L f p s =
     (if line_in_segment L f s p then
        (let a_ai = line_a_ai L f s p;
             s1 = add_to s (slot L p (F_X L)) (vx a_ai);
             s2 = add_to s1 (slot L p (F_Y L)) (vy a_ai)
         in add_to s2 (slot L p (F_Z L)) (vz a_ai))
      else s)"

subsection \<open>Vortex\<close>

definition f_R :: jsnum where
  "f_R = Fin 2"

definition f_max :: jsnum where
  "f_max = jpow (Fin 10) (jadd f_R (Fin 1))"

definition vortex_x_vi :: "layout \<Rightarrow> force \<Rightarrow> state \<Rightarrow> nat \<Rightarrow> vec3" where
  "vortex_x_vi L f s p = vec3_sub (position L s p) (f_x_a f)"

definition vortex_l_vi :: "layout \<Rightarrow> force \<Rightarrow> state \<Rightarrow> nat \<Rightarrow> jsnum" where
  "vortex_l_vi L f s p = vec3_dot (f_a f) (vortex_x_vi L f s p)"

definition vortex_r_i :: "layout \<Rightarrow> force \<Rightarrow> state \<Rightarrow> nat \<Rightarrow> vec3" where
  "vortex_r_i L f s p =
     vec3_scaleAndAdd (vortex_x_vi L f s p) (f_a f) (jneg (vortex_l_vi L f s p))"

text \<open>The radial distance of the particle from the axis of the vortex.\<close>

definition vortex_r :: "layout \<Rightarrow> force \<Rightarrow> state \<Rightarrow> nat \<Rightarrow> jsnum" where
  "vortex_r L f s p = vec3_length (vortex_r_i L f s p)"

text \<open>The two nested tests that guard the update of the velocity.\<close>

definition vortex_affected :: "layout \<Rightarrow> force \<Rightarrow> state \<Rightarrow> nat \<Rightarrow> bool" where
  "vortex_affected L f s p =
     ((jle epsilon (vortex_l_vi L f s p) \<and> jlt (vortex_l_vi L f s p) (f_L f))
      \<and> jlt (vortex_r L f s p) (f_r f))"

definition vortex_f_i :: "layout \<Rightarrow> force \<Rightarrow> state \<Rightarrow> nat \<Rightarrow> jsnum" where
  "vortex_f_i L f s p =
     jmin f_max (jmul (jpow (jdiv (f_r f) (vortex_r L f s p)) (f_pow f)) f_R)"

definition vortex_omega :: "layout \<Rightarrow> force \<Rightarrow> state \<Rightarrow> nat \<Rightarrow> jsnum" where
  "vortex_omega L f s p = jmul (jmul (Fin 2) Math_PI) (vortex_f_i L f s p)"

text \<open>The vector added to the velocity: the rotated position minus the position.\<close>

definition vortex_dv :: "layout \<Rightarrow> force \<Rightarrow> state \<Rightarrow> nat \<Rightarrow> vec3" where
  "vortex_dv L f s p =
     (let x_i = position L s p;
          v_vi = vec3_rotateZ x_i (f_x_a f) (vortex_omega L f s p)
      in (jsub (vx v_vi) (vx x_i), jsub (vy v_vi) (vy x_i), jsub (vz v_vi) (vz x_i)))"

definition vortex_step :: "layout \<Rightarrow> force \<Rightarrow> nat \<Rightarrow> state \<Rightarrow> state" where
  "vortex_step L f p s =
     (if vortex_affected L f s p then
        (let dv = vortex_dv L f s p;
             s1 = add_to s (slot L p (V_X L)) (vx dv);
             s2 = add_to s1 (slot L p (V_Y L)) (vy dv)
         in add_to s2 (slot L p (V_Z L)) (vz dv))
      else s)"

subsection \<open>Point attractors\<close>

definition point_dir :: "layout \<Rightarrow> force \<Rightarrow> state \<Rightarrow> nat \<Rightarrow> vec3" where
  "point_dir L f s p = vec3_sub (f_x_a f) (position L s p)"

definition uniform_point_step :: "layout \<Rightarrow> force \<Rightarrow> nat \<Rightarrow> state \<Rightarrow> state" where
  "uniform_point_step L f p s =
     (let dir = point_dir L f s p;
          s1 = add_to s (slot L p (F_X L)) (vx dir);
          s2 = add_to s1 (slot L p (F_Y L)) (vy dir)
      in add_to s2 (slot L p (F_Z L)) (vz dir))"

definition point_len :: "layout \<Rightarrow> force \<Rightarrow> state \<Rightarrow> nat \<Rightarrow> jsnum" where
  "point_len L f s p = vec3_length (point_dir L f s p)"

text \<open>The factor \<^verbatim>\<open>this._r / Math.pow(len, (this._pow + 1))\<close> and the scaled vector.\<close>

definition point_factor :: "layout \<Rightarrow> force \<Rightarrow> state \<Rightarrow> nat \<Rightarrow> jsnum" where
  "point_factor L f s p =
     jdiv (f_r f) (jpow (point_len L f s p) (jadd (f_pow f) (Fin 1)))"

definition point_pull :: "layout \<Rightarrow> force \<Rightarrow> state \<Rightarrow> nat \<Rightarrow> vec3" where
  "point_pull L f s p = vec3_scale (point_dir L f s p) (point_factor L f s p)"

definition point_step :: "layout \<Rightarrow> force \<Rightarrow> nat \<Rightarrow> state \<Rightarrow> state" where
  "point_step L f p s =
     (if jgt (point_len L f s p) (f_L f) then s
      else
        (let dir = point_pull L f s p;
             s1 = add_to s (slot L p (F_X L)) (vx dir);
             s2 = add_to s1 (slot L p (F_Y L)) (vy dir)
         in add_to s2 (slot L p (F_Z L)) (vz dir)))"

subsection \<open>The dispatch of \<^verbatim>\<open>Force.apply\<close>\<close>

text \<open>
  \<^verbatim>\<open>apply(s)\<close> returns at once when the force is disabled, runs the kernel of the
  force's type otherwise, and logs a message and returns for a type without a
  kernel. The result is the state vector after the call.
\<close>

definition apply_force :: "layout \<Rightarrow> env \<Rightarrow> (nat \<Rightarrow> real) \<Rightarrow> force \<Rightarrow> state \<Rightarrow> state" where
  "apply_force L E rnd f s =
     (if \<not> f_enabled f then s
      else if f_type f = FORCE_SIMP_GRAVITY then fold (gravity_step L f) (f_p f) s
      else if f_type f = FORCE_DRAG then fold (drag_step L f) (f_p f) s
      else if f_type f = FORCE_WIND then fold (wind_step L f rnd) [0..<length (f_p f)] s
      else if f_type f = FORCE_SPRING then spring_apply L f s
      else if f_type f = FORCE_FLOCK then flock_apply L E f s
      else if f_type f = FORCE_LINE_ATTRACTOR then fold (line_step L f) (f_p f) s
      else if f_type f = FORCE_VORTEX then fold (vortex_step L f) (f_p f) s
      else if f_type f = FORCE_UNIFORM_POINT_ATTRACTOR
        then fold (uniform_point_step L f) (f_p f) s
      else if f_type f = FORCE_POINT_ATTRACTOR then fold (point_step L f) (f_p f) s
      else s)"

text \<open>The type tags that have a case in the \<^verbatim>\<open>switch\<close> of \<^verbatim>\<open>apply\<close>.\<close>

definition implemented :: "nat list" where
  "implemented =
     [FORCE_SIMP_GRAVITY, FORCE_DRAG, FORCE_WIND, FORCE_SPRING, FORCE_FLOCK,
      FORCE_LINE_ATTRACTOR, FORCE_VORTEX, FORCE_UNIFORM_POINT_ATTRACTOR,
      FORCE_POINT_ATTRACTOR]"

section \<open>Drawing a force\<close>

text \<open>
  \<^verbatim>\<open>VBOBox.reload(data, index)\<close> binds the box's buffer and calls
  \<^verbatim>\<open>gl.bufferSubData(gl.ARRAY_BUFFER, index * this.FSIZE, data)\<close>. The WebGL context
  is outside the repository: the model keeps the calls it receives, each with the
  buffer, the byte offset and the data.
\<close>

record vbobox =
  FSIZE :: nat
  vbo_loc :: nat

type_synonym gl_calls = "(nat \<times> nat \<times> jsnum list) list"

definition reload :: "vbobox \<Rightarrow> jsnum list \<Rightarrow> nat \<Rightarrow> gl_calls \<Rightarrow> gl_calls" where
  "reload vbo data index gl = gl @ [(vbo_loc vbo, index * FSIZE vbo, data)]"

text \<open>The colour of a spring of natural length \<open>lr\<close> drawn from \<open>p0\<close> to \<open>p1\<close>.\<close>

definition spring_len :: "vec3 \<Rightarrow> vec3 \<Rightarrow> jsnum" where
  "spring_len p0 p1 =
     jsqrt (jadd (jadd (jpow (jsub (vx p1) (vx p0)) (Fin 2))
                       (jpow (jsub (vy p1) (vy p0)) (Fin 2)))
                 (jpow (jsub (vz p1) (vz p0)) (Fin 2)))"

definition spring_colour :: "jsnum \<Rightarrow> vec3 \<Rightarrow> vec3 \<Rightarrow> vec3" where
  "spring_colour lr p0 p1 =
     (let len = spring_len p0 p1
      in if jlt (jabs (jsub len lr)) epsilon then (Fin 1, Fin 1, Fin 1)
         else
           (let delta = jsub (Fin 1) (jdiv (jabs (jsub len lr)) lr)
            in if jle delta (Fin 0.33) then (Fin 1, delta, delta)
               else (delta, delta, Fin 1)))"

text \<open>\<^verbatim>\<open>enabled | 0\<close>.\<close>

definition flag :: "bool \<Rightarrow> jsnum" where
  "flag b = (if b then Fin 1 else Fin 0)"

definition spring_vertices :: "force \<Rightarrow> bool \<Rightarrow> vec3 \<Rightarrow> vec3 \<Rightarrow> jsnum list" where
  "spring_vertices f enabled p0 p1 =
     (let c = spring_colour (f_lr f) p0 p1; e = flag (enabled \<and> f_enabled f)
      in [vx p0, vy p0, vz p0, vx c, vy c, vz c, e,
          vx p1, vy p1, vz p1, vx c, vy c, vz c, e])"

definition draw :: "force \<Rightarrow> vbobox \<Rightarrow> nat \<Rightarrow> bool \<Rightarrow> vec3 \<Rightarrow> vec3 \<Rightarrow> gl_calls \<Rightarrow> gl_calls" where
  "draw f vbo index enabled p0 p1 gl =
     (if f_type f = FORCE_SPRING
      then reload vbo (spring_vertices f enabled p0 p1) (index * 7 * 2) gl
      else gl)"

text \<open>
  The specification describes the colours as gradients between green, red and blue.
  A colour is on the gradient from \<open>c1\<close> to \<open>c2\<close> when it is a mixture of the two.
\<close>

definition green :: vec3 where "green = (Fin 0, Fin 1, Fin 0)"
definition red :: vec3 where "red = (Fin 1, Fin 0, Fin 0)"
definition blue :: vec3 where "blue = (Fin 0, Fin 0, Fin 1)"

definition mix :: "vec3 \<Rightarrow> vec3 \<Rightarrow> real \<Rightarrow> vec3" where
  "mix c1 c2 t = vec3_add (vec3_scale c1 (Fin (1 - t))) (vec3_scale c2 (Fin t))"

definition on_gradient :: "vec3 \<Rightarrow> vec3 \<Rightarrow> vec3 \<Rightarrow> bool" where
  "on_gradient c1 c2 c = (\<exists>t. 0 \<le> t \<and> t \<le> 1 \<and> c = mix c1 c2 t)"

section \<open>Example inputs\<close>

text \<open>A state buffer in the layout \<open>layout10\<close>, given particle by particle.\<close>

definition particle :: "vec3 \<Rightarrow> vec3 \<Rightarrow> vec3 \<Rightarrow> jsnum \<Rightarrow> state" where
  "particle x v a m = [vx x, vy x, vz x, vx v, vy v, vz v, vx a, vy a, vz a, m]"

definition at_rest :: "real \<Rightarrow> real \<Rightarrow> real \<Rightarrow> state" where
  "at_rest x y z = particle (Fin x, Fin y, Fin z) vec3_create vec3_create (Fin 1)"

definition env0 :: env where
  "env0 = \<lparr>BOID_PARTICLE_COUNT = 1, goal = vec3_create\<rparr>"

definition calm :: "nat \<Rightarrow> real" where
  "calm n = 1 / 2"

definition gravity_off :: force where
  "gravity_off =
     disable (init_vectored (Fin (- 9.8)) (Fin 0) (Fin 0) (Fin 1) (new_force FORCE_SIMP_GRAVITY [0]))"

definition planetary :: force where
  "planetary = new_force FORCE_PLANETARY_GRAVITY [0, 1]"

text \<open>The spring of the specification's example, and a stiff one that reaches the limit.\<close>

definition spring_unit :: force where
  "spring_unit = init_spring (Fin 1) (Fin 1) (Fin 0) (new_force FORCE_SPRING [0, 1])"

definition spring_stiff :: force where
  "spring_stiff = init_spring (Fin 100) (Fin 1) (Fin 0) (new_force FORCE_SPRING [0, 1])"

definition two_particles :: state where
  "two_particles = at_rest 0 0 0 @ at_rest 2 0 0"

text \<open>
  A point attractor at (-1, 0, 0) that reaches 1.5 far, and a line attractor along
  the x axis from the origin, both with the default exponent 2.
\<close>

definition point_puller :: force where
  "point_puller =
     init_attractor (Fin (- 1), Fin 0, Fin 0) (Fin 0, Fin 0, Fin 1) (Fin 2) (Fin 1.5) (Fin 3)
       (new_force FORCE_POINT_ATTRACTOR [0, 1])"

text \<open>
  The point attractor again with particle 0 listed twice, and one at the origin
  with an infinite exponent.
\<close>

definition point_twice :: force where
  "point_twice =
     init_attractor (Fin (- 1), Fin 0, Fin 0) (Fin 0, Fin 0, Fin 1) (Fin 2) (Fin 1.5) (Fin 3)
       (new_force FORCE_POINT_ATTRACTOR [0, 0])"

definition point_steep :: force where
  "point_steep =
     init_attractor (Fin 0, Fin 0, Fin 0) (Fin 0, Fin 0, Fin 1) PInf (Fin 5) (Fin 3)
       (new_force FORCE_POINT_ATTRACTOR [1])"

definition line_puller :: force where
  "line_puller =
     init_attractor (Fin 0, Fin 0, Fin 0) (Fin 1, Fin 0, Fin 0) (Fin 2) (Fin 10) (Fin 0)
       (new_force FORCE_LINE_ATTRACTOR [0])"

text \<open>One particle beside the x axis, at (1, 2, 0).\<close>

definition off_line :: state where
  "off_line = at_rest 1 2 0"

text \<open>
  Two flocks over the particles 0 and 1, all five coefficients 1: the first sees
  as far as 1, the second as far as 10. In \<open>cruising\<close> the two particles of
  \<open>two_particles\<close> move along the x axis at speed 1.
\<close>

definition flock_short :: force where
  "flock_short =
     init_boid (Fin 0.5) (Fin 1) (Fin 2) (Fin 4) (Fin 1) (Fin 1) (Fin 1) (Fin 1) (Fin 1)
       (new_force FORCE_FLOCK [0, 1])"

definition flock_wide :: force where
  "flock_wide =
     init_boid (Fin 5) (Fin 10) (Fin 2) (Fin 4) (Fin 1) (Fin 1) (Fin 1) (Fin 1) (Fin 1)
       (new_force FORCE_FLOCK [0, 1])"

text \<open>A flock whose target list names particle 0 twice.\<close>

definition flock_twice :: force where
  "flock_twice =
     init_boid (Fin 5) (Fin 10) (Fin 2) (Fin 4) (Fin 1) (Fin 1) (Fin 1) (Fin 1) (Fin 1)
       (new_force FORCE_FLOCK [0, 0])"

definition cruising :: state where
  "cruising =
     particle (Fin 0, Fin 0, Fin 0) (Fin 1, Fin 0, Fin 0) vec3_create (Fin 1)
     @ particle (Fin 2, Fin 0, Fin 0) (Fin 1, Fin 0, Fin 0) vec3_create (Fin 1)"

text \<open>
  The same two boids with a predator: particle 2, at rest at (0, 0, 2), is the last
  of three particles, and the goal is (0, 2, 0).
\<close>

definition hunted :: state where
  "hunted = cruising @ at_rest 0 0 2"

definition hunt :: env where
  "hunt = \<lparr>BOID_PARTICLE_COUNT = 3, goal = (Fin 0, Fin 2, Fin 0)\<rparr>"



text \<open>A box of 4-byte floats, and the two ends of a compressed and of a stretched spring.\<close>

definition box :: vbobox where
  "box = \<lparr>FSIZE = 4, vbo_loc = 1\<rparr>"

definition origin :: vec3 where
  "origin = (Fin 0, Fin 0, Fin 0)"

definition near_end :: vec3 where
  "near_end = (Fin 0.5, Fin 0, Fin 0)"

definition far_end :: vec3 where
  "far_end = (Fin 1.5, Fin 0, Fin 0)"

section \<open>Properties\<close>

subsection \<open>Numbers, vectors and the state buffer\<close>

lemma vx_simp [simp]: "vx (a, b, c) = a"
  by (simp add: vx_def)

lemma vy_simp [simp]: "vy (a, b, c) = b"
  by (simp add: vy_def)

lemma vz_simp [simp]: "vz (a, b, c) = c"
  by (simp add: vz_def)

lemma jadd_zero [simp]: "jadd x (Fin 0) = x"
  by (cases x) simp_all

lemma vec3_add_zero [simp]: "vec3_add v (Fin 0, Fin 0, Fin 0) = v"
  by (cases v) (simp add: vec3_add_def)

lemma length_wr [simp]: "length (wr s k v) = length s"
  by (simp add: wr_def)

lemma rd_wr: "rd (wr s k v) k' = (if k' = k \<and> k < length s then v else rd s k')"
  by (simp add: rd_def wr_def)

lemma length_add_to [simp]: "length (add_to s k v) = length s"
  by (simp add: add_to_def)

text \<open>Outside the buffer both sides are NaN.\<close>

lemma rd_add_to: "rd (add_to s k v) k' = (if k' = k then jadd (rd s k) v else rd s k')"
  by (simp add: add_to_def rd_wr) (simp add: rd_def)

lemma add_to_zero [simp]: "add_to s k (Fin 0) = s"
  by (simp add: add_to_def wr_def rd_def)

lemma slot_inject:
  assumes "a < STATE_SIZE L" "b < STATE_SIZE L"
  shows "(slot L p a = slot L q b) = (p = q \<and> a = b)"
proof
  assume eq: "slot L p a = slot L q b"
  have "(p * STATE_SIZE L + a) div STATE_SIZE L = p" using assms by simp
  moreover have "(q * STATE_SIZE L + b) div STATE_SIZE L = q" using assms by simp
  ultimately have "p = q" using eq by (simp add: slot_def)
  with eq show "p = q \<and> a = b" by (simp add: slot_def)
qed simp

lemma wf_layout_bounds:
  assumes "wf_layout L"
  shows "P_X L < STATE_SIZE L" "P_Y L < STATE_SIZE L" "P_Z L < STATE_SIZE L"
    "V_X L < STATE_SIZE L" "V_Y L < STATE_SIZE L" "V_Z L < STATE_SIZE L"
    "F_X L < STATE_SIZE L" "F_Y L < STATE_SIZE L" "F_Z L < STATE_SIZE L"
    "MASS L < STATE_SIZE L"
  using assms by (simp_all add: wf_layout_def layout_fields_def)

lemma wf_layout_neq:
  assumes "wf_layout L"
  shows
    "P_X L \<noteq> P_Y L" "P_X L \<noteq> P_Z L" "P_X L \<noteq> V_X L" "P_X L \<noteq> V_Y L" "P_X L \<noteq> V_Z L" "P_X L \<noteq> F_X L" "P_X L \<noteq> F_Y L" "P_X L \<noteq> F_Z L" "P_X L \<noteq> MASS L"
    "P_Y L \<noteq> P_X L" "P_Y L \<noteq> P_Z L" "P_Y L \<noteq> V_X L" "P_Y L \<noteq> V_Y L" "P_Y L \<noteq> V_Z L" "P_Y L \<noteq> F_X L" "P_Y L \<noteq> F_Y L" "P_Y L \<noteq> F_Z L" "P_Y L \<noteq> MASS L"
    "P_Z L \<noteq> P_X L" "P_Z L \<noteq> P_Y L" "P_Z L \<noteq> V_X L" "P_Z L \<noteq> V_Y L" "P_Z L \<noteq> V_Z L" "P_Z L \<noteq> F_X L" "P_Z L \<noteq> F_Y L" "P_Z L \<noteq> F_Z L" "P_Z L \<noteq> MASS L"
    "V_X L \<noteq> P_X L" "V_X L \<noteq> P_Y L" "V_X L \<noteq> P_Z L" "V_X L \<noteq> V_Y L" "V_X L \<noteq> V_Z L" "V_X L \<noteq> F_X L" "V_X L \<noteq> F_Y L" "V_X L \<noteq> F_Z L" "V_X L \<noteq> MASS L"
    "V_Y L \<noteq> P_X L" "V_Y L \<noteq> P_Y L" "V_Y L \<noteq> P_Z L" "V_Y L \<noteq> V_X L" "V_Y L \<noteq> V_Z L" "V_Y L \<noteq> F_X L" "V_Y L \<noteq> F_Y L" "V_Y L \<noteq> F_Z L" "V_Y L \<noteq> MASS L"
    "V_Z L \<noteq> P_X L" "V_Z L \<noteq> P_Y L" "V_Z L \<noteq> P_Z L" "V_Z L \<noteq> V_X L" "V_Z L \<noteq> V_Y L" "V_Z L \<noteq> F_X L" "V_Z L \<noteq> F_Y L" "V_Z L \<noteq> F_Z L" "V_Z L \<noteq> MASS L"
    "F_X L \<noteq> P_X L" "F_X L \<noteq> P_Y L" "F_X L \<noteq> P_Z L" "F_X L \<noteq> V_X L" "F_X L \<noteq> V_Y L" "F_X L \<noteq> V_Z L" "F_X L \<noteq> F_Y L" "F_X L \<noteq> F_Z L" "F_X L \<noteq> MASS L"
    "F_Y L \<noteq> P_X L" "F_Y L \<noteq> P_Y L" "F_Y L \<noteq> P_Z L" "F_Y L \<noteq> V_X L" "F_Y L \<noteq> V_Y L" "F_Y L \<noteq> V_Z L" "F_Y L \<noteq> F_X L" "F_Y L \<noteq> F_Z L" "F_Y L \<noteq> MASS L"
    "F_Z L \<noteq> P_X L" "F_Z L \<noteq> P_Y L" "F_Z L \<noteq> P_Z L" "F_Z L \<noteq> V_X L" "F_Z L \<noteq> V_Y L" "F_Z L \<noteq> V_Z L" "F_Z L \<noteq> F_X L" "F_Z L \<noteq> F_Y L" "F_Z L \<noteq> MASS L"
    "MASS L \<noteq> P_X L" "MASS L \<noteq> P_Y L" "MASS L \<noteq> P_Z L" "MASS L \<noteq> V_X L" "MASS L \<noteq> V_Y L" "MASS L \<noteq> V_Z L" "MASS L \<noteq> F_X L" "MASS L \<noteq> F_Y L" "MASS L \<noteq> F_Z L"
  using assms by (auto simp add: wf_layout_def layout_fields_def)

lemma wf_layout10: "wf_layout layout10"
  by (simp add: wf_layout_def layout_fields_def layout10_def)

lemma add_acc_zero [simp]: "add_acc L p (Fin 0, Fin 0, Fin 0) s = s"
  by (simp add: add_acc_def)

lemma add_vel_zero [simp]: "add_vel L p (Fin 0, Fin 0, Fin 0) s = s"
  by (simp add: add_vel_def)

lemma force_acc_add_acc:
  assumes wf: "wf_layout L"
  shows "force_acc L (add_acc L p v s) q =
    (if q = p then vec3_add (force_acc L s p) v else force_acc L s q)"
  using wf_layout_neq[OF wf] wf_layout_bounds[OF wf]
  by (simp add: force_acc_def add_acc_def vec3_add_def rd_add_to slot_inject)

lemma position_add_acc:
  assumes wf: "wf_layout L"
  shows "position L (add_acc L p v s) q = position L s q"
  using wf_layout_neq[OF wf] wf_layout_bounds[OF wf]
  by (simp add: position_def add_acc_def rd_add_to slot_inject)

lemma velocity_add_acc:
  assumes wf: "wf_layout L"
  shows "velocity L (add_acc L p v s) q = velocity L s q"
  using wf_layout_neq[OF wf] wf_layout_bounds[OF wf]
  by (simp add: velocity_def add_acc_def rd_add_to slot_inject)

text \<open>
  A loop over distinct targets whose body tests the particle's position and adds a
  vector computed from it: the positions stay, and each target that passes the test
  receives its vector once.
\<close>

lemma fold_add_acc:
  assumes wf: "wf_layout L"
    and step: "\<And>p s. step p s =
      (if g (position L s p) then add_acc L p (h (position L s p)) s else s)"
  shows "distinct ps \<Longrightarrow>
    position L (fold step ps s) q = position L s q \<and>
    force_acc L (fold step ps s) q =
      (if q \<in> set ps \<and> g (position L s q)
       then vec3_add (force_acc L s q) (h (position L s q)) else force_acc L s q)"
proof (induction ps arbitrary: s)
  case Nil
  show ?case by simp
next
  case (Cons p ps)
  have pos: "position L (step p s) q = position L s q" for q
    by (simp add: step position_add_acc[OF wf])
  have acc: "force_acc L (step p s) q =
      (if q = p \<and> g (position L s p) then vec3_add (force_acc L s p) (h (position L s p))
       else force_acc L s q)" for q
    by (simp add: step force_acc_add_acc[OF wf])
  from Cons.prems have d: "distinct ps" and np: "p \<notin> set ps" by simp_all
  show ?case
    using Cons.IH[OF d, of "step p s"] np
    by (auto simp add: pos acc)
qed

lemmas force_tags = FORCE_SIMP_GRAVITY_def FORCE_DRAG_def FORCE_WIND_def FORCE_SPRING_def
  FORCE_FLOCK_def FORCE_PLANETARY_GRAVITY_def FORCE_LINE_ATTRACTOR_def FORCE_VORTEX_def
  FORCE_UNIFORM_POINT_ATTRACTOR_def FORCE_POINT_ATTRACTOR_def

text \<open>The example buffer of two particles, read field by field.\<close>

lemma position_two_0: "position layout10 two_particles 0 = (Fin 0, Fin 0, Fin 0)"
  by (simp add: position_def layout10_def two_particles_def at_rest_def particle_def
      vec3_create_def slot_def rd_def)

lemma position_two_1: "position layout10 two_particles 1 = (Fin 2, Fin 0, Fin 0)"
  by (simp add: position_def layout10_def two_particles_def at_rest_def particle_def
      vec3_create_def slot_def rd_def nth_append)

lemma force_two:
  "force_acc layout10 two_particles 0 = (Fin 0, Fin 0, Fin 0)"
  "force_acc layout10 two_particles 1 = (Fin 0, Fin 0, Fin 0)"
  by (simp_all add: force_acc_def layout10_def two_particles_def at_rest_def particle_def
      vec3_create_def slot_def rd_def nth_append)

subsection \<open>The dispatch\<close>

text \<open>
  Claim C2. A disabled force, of whatever variant, leaves the state buffer as it is:
  \<open>apply\<close> returns the very buffer it was given.
\<close>

theorem disabled_apply_unchanged:
  "\<not> f_enabled f \<Longrightarrow> apply_force L E rnd f s = s"
  by (simp add: apply_force_def)

theorem disabled_apply_unchanged_witness:
  "\<not> f_enabled gravity_off \<and>
   apply_force layout10 env0 calm gravity_off (at_rest 0 0 0) = at_rest 0 0 0"
proof -
  have off: "\<not> f_enabled gravity_off"
    by (simp add: gravity_off_def disable_def)
  show ?thesis
    using off disabled_apply_unchanged [OF off, of layout10 env0 calm "at_rest 0 0 0"]
    by simp
qed

text \<open>
  Claim C8. An enabled force whose type has no case in the dispatch, such as
  \<open>FORCE_PLANETARY_GRAVITY\<close>, falls to the default branch, and the state buffer
  comes back unchanged.
\<close>

theorem unimplemented_apply_unchanged:
  "f_type f \<notin> set implemented \<Longrightarrow> apply_force L E rnd f s = s"
  by (auto simp add: apply_force_def implemented_def)

theorem unimplemented_apply_unchanged_witness:
  "f_enabled planetary \<and> f_type planetary = 5 \<and> f_type planetary \<notin> set implemented \<and>
   apply_force layout10 env0 calm planetary (at_rest 0 0 0 @ at_rest 2 0 0)
     = at_rest 0 0 0 @ at_rest 2 0 0"
proof -
  have tag: "f_type planetary \<notin> set implemented"
    by (simp add: planetary_def new_force_def implemented_def FORCE_SIMP_GRAVITY_def
        FORCE_DRAG_def FORCE_WIND_def FORCE_SPRING_def FORCE_FLOCK_def
        FORCE_PLANETARY_GRAVITY_def FORCE_LINE_ATTRACTOR_def FORCE_VORTEX_def
        FORCE_UNIFORM_POINT_ATTRACTOR_def FORCE_POINT_ATTRACTOR_def)
  have on: "f_enabled planetary \<and> f_type planetary = 5"
    by (simp add: planetary_def new_force_def FORCE_PLANETARY_GRAVITY_def)
  show ?thesis
    using on tag
      unimplemented_apply_unchanged [OF tag, of layout10 env0 calm "at_rest 0 0 0 @ at_rest 2 0 0"]
    by simp
qed

subsection \<open>Spring\<close>

lemma spring_apply_add_acc:
  assumes "target f 0 = Some p0" "target f 1 = Some p1"
  shows "spring_apply L f s =
    add_acc L p1 (vec3_negate (spring_F L f s)) (add_acc L p0 (spring_F L f s) s)"
  using assms
  by (simp add: spring_apply_def add_acc_def slot_of_def add_at_def vec3_negate_def Let_def)

lemma spring_L_position:
  assumes "target f 0 = Some p0" "target f 1 = Some p1"
  shows "spring_L L f s = vec3_sub (position L s p1) (position L s p0)"
  using assms
  by (simp add: spring_L_def slot_of_def rd_at_def vec3_sub_def position_def)

lemma spring_apply_acc:
  assumes wf: "wf_layout L" and t0: "target f 0 = Some p0" and t1: "target f 1 = Some p1"
    and ne: "p0 \<noteq> p1"
  shows "force_acc L (spring_apply L f s) p0 = vec3_add (force_acc L s p0) (spring_F L f s) \<and>
    force_acc L (spring_apply L f s) p1 =
      vec3_add (force_acc L s p1) (vec3_negate (spring_F L f s))"
  using ne by (simp add: spring_apply_add_acc[OF t0 t1] force_acc_add_acc[OF wf])

text \<open>
  Claim C1. Two particles in a buffer of stride 10, particle 0 at the origin and
  particle 1 at (2, 0, 0), and an enabled spring with \<open>k = 1\<close>, natural length 1 and
  damping 0 between them: the distance is 2, and \<open>apply\<close> adds exactly (1, 0, 0) to
  the force accumulator of particle 0 and exactly (-1, 0, 0) to that of particle 1.
\<close>

theorem spring_example:
  assumes "wf_layout L" "STATE_SIZE L = 10" "length s = 2 * STATE_SIZE L"
    "position L s 0 = (Fin 0, Fin 0, Fin 0)" "position L s 1 = (Fin 2, Fin 0, Fin 0)"
    "f_enabled f" "f_type f = FORCE_SPRING" "f_p f = [0, 1]"
    "f_k f = Fin 1" "f_lr f = Fin 1" "f_d f = Fin 0"
  shows "spring_distance L f s = Fin 2 \<and>
    force_acc L (apply_force L E rnd f s) 0
      = vec3_add (force_acc L s 0) (Fin 1, Fin 0, Fin 0) \<and>
    force_acc L (apply_force L E rnd f s) 1
      = vec3_add (force_acc L s 1) (Fin (- 1), Fin 0, Fin 0)"
proof -
  have t0: "target f 0 = Some 0" and t1: "target f 1 = Some 1"
    using assms(8) by (simp_all add: target_def)
  have l: "spring_L L f s = (Fin 2, Fin 0, Fin 0)"
    using assms(4,5) by (simp add: spring_L_position[OF t0 t1] vec3_sub_def jsub_def)
  have d: "spring_distance L f s = Fin 2"
    by (simp add: spring_distance_def l)
  have F: "spring_F L f s = (Fin 1, Fin 0, Fin 0)"
    by (simp add: spring_F_def d l spring_axis_def assms(9,10) jsub_def)
  have "apply_force L E rnd f s = spring_apply L f s"
    using assms(6,7) by (simp add: apply_force_def force_tags)
  then show ?thesis
    using spring_apply_acc[OF assms(1) t0 t1, of s] d
    by (simp add: F vec3_negate_def)
qed

theorem spring_example_witness:
  "wf_layout layout10 \<and> STATE_SIZE layout10 = 10 \<and>
   length two_particles = 2 * STATE_SIZE layout10 \<and>
   position layout10 two_particles 0 = (Fin 0, Fin 0, Fin 0) \<and>
   position layout10 two_particles 1 = (Fin 2, Fin 0, Fin 0) \<and>
   f_enabled spring_unit \<and> f_type spring_unit = FORCE_SPRING \<and> f_p spring_unit = [0, 1] \<and>
   f_k spring_unit = Fin 1 \<and> f_lr spring_unit = Fin 1 \<and> f_d spring_unit = Fin 0 \<and>
   force_acc layout10 (apply_force layout10 env0 calm spring_unit two_particles) 0
     = (Fin 1, Fin 0, Fin 0) \<and>
   force_acc layout10 (apply_force layout10 env0 calm spring_unit two_particles) 1
     = (Fin (- 1), Fin 0, Fin 0)"
proof -
  have size: "STATE_SIZE layout10 = 10" "length two_particles = 2 * STATE_SIZE layout10"
    by (simp_all add: layout10_def two_particles_def at_rest_def particle_def)
  have f: "f_enabled spring_unit" "f_type spring_unit = FORCE_SPRING"
    "f_p spring_unit = [0, 1]"
    "f_k spring_unit = Fin 1" "f_lr spring_unit = Fin 1" "f_d spring_unit = Fin 0"
    by (simp_all add: spring_unit_def init_spring_def new_force_def)
  show ?thesis
    using spring_example [OF wf_layout10 size position_two_0 position_two_1 f,
        of env0 calm]
      wf_layout10 size position_two_0 position_two_1 f force_two
    by (simp add: vec3_add_def)
qed

text \<open>
  Claim C3. For an enabled spring between two different particles \<open>p0\<close> and \<open>p1\<close>
  and any state buffer, \<open>apply\<close> adds the vector \<open>spring_F\<close> to the force
  accumulator of \<open>p0\<close> and its exact negation to that of \<open>p1\<close>. The limit of 12 is
  part of \<open>spring_F\<close>, so the two vectors are opposite also where it cuts an axis.
\<close>

theorem spring_newton_third:
  assumes "wf_layout L" "f_enabled f" "f_type f = FORCE_SPRING"
    "target f 0 = Some p0" "target f 1 = Some p1" "p0 \<noteq> p1"
  shows "force_acc L (apply_force L E rnd f s) p0 =
      vec3_add (force_acc L s p0) (spring_F L f s) \<and>
    force_acc L (apply_force L E rnd f s) p1 =
      vec3_add (force_acc L s p1) (vec3_negate (spring_F L f s))"
proof -
  have "apply_force L E rnd f s = spring_apply L f s"
    using assms(2,3) by (simp add: apply_force_def force_tags)
  then show ?thesis
    using spring_apply_acc[OF assms(1) assms(4) assms(5) assms(6)] by simp
qed

lemma targets_stiff: "target spring_stiff 0 = Some 0" "target spring_stiff 1 = Some 1"
  by (simp_all add: target_def spring_stiff_def init_spring_def new_force_def)

lemma spring_L_stiff: "spring_L layout10 spring_stiff two_particles = (Fin 2, Fin 0, Fin 0)"
  using position_two_0 position_two_1
  by (simp add: spring_L_position[OF targets_stiff] vec3_sub_def jsub_def)

lemma fields_stiff: "f_k spring_stiff = Fin 100" "f_lr spring_stiff = Fin 1"
  by (simp_all add: spring_stiff_def init_spring_def new_force_def)

text \<open>With \<open>k = 100\<close> Hooke's law gives 100 on the x axis, which the limit cuts to 12.\<close>

lemma spring_F_stiff: "spring_F layout10 spring_stiff two_particles = (Fin 12, Fin 0, Fin 0)"
  by (simp add: spring_F_def spring_distance_def spring_L_stiff spring_axis_def fields_stiff
      jsub_def)

theorem spring_newton_third_witness:
  "wf_layout layout10 \<and> f_enabled spring_stiff \<and> f_type spring_stiff = FORCE_SPRING \<and>
   target spring_stiff 0 = Some 0 \<and> target spring_stiff 1 = Some 1 \<and> (0::nat) \<noteq> 1 \<and>
   spring_F layout10 spring_stiff two_particles = (Fin 12, Fin 0, Fin 0) \<and>
   force_acc layout10 (apply_force layout10 env0 calm spring_stiff two_particles) 0
     = (Fin 12, Fin 0, Fin 0) \<and>
   force_acc layout10 (apply_force layout10 env0 calm spring_stiff two_particles) 1
     = (Fin (- 12), Fin 0, Fin 0)"
proof -
  have on: "f_enabled spring_stiff" and tag: "f_type spring_stiff = FORCE_SPRING"
    by (simp_all add: spring_stiff_def init_spring_def new_force_def)
  have ne: "(0::nat) \<noteq> 1" by simp
  show ?thesis
    using spring_newton_third [OF wf_layout10 on tag targets_stiff ne,
        of env0 calm two_particles]
      wf_layout10 on tag targets_stiff spring_F_stiff force_two
    by (simp add: vec3_add_def vec3_negate_def)
qed

subsection \<open>Point attractor\<close>

text \<open>A vector of finite length has finite components.\<close>

lemma vec3_length_Fin:
  assumes "vec3_length v = Fin d"
  shows "\<exists>a b c. v = (Fin a, Fin b, Fin c) \<and> d = sqrt (a * a + b * b + c * c)"
proof -
  obtain x y z where v: "v = (x, y, z)" by (cases v) auto
  show ?thesis
    using assms unfolding v
    by (cases x; cases y; cases z)
      (auto simp add: vec3_length_def inf_signed_def split: if_splits)
qed

lemma vec3_length_scale:
  "vec3_length (vec3_scale (Fin a, Fin b, Fin c) (Fin k))
     = Fin (\<bar>k\<bar> * sqrt (a * a + b * b + c * c))"
proof -
  have "a * k * (a * k) + b * k * (b * k) + c * k * (c * k) = k\<^sup>2 * (a * a + b * b + c * c)"
    by (simp add: power2_eq_square algebra_simps)
  moreover have "0 \<le> a * k * (a * k) + b * k * (b * k) + c * k * (c * k)"
    by simp
  ultimately show ?thesis
    by (simp add: vec3_length_def vec3_scale_def real_sqrt_mult not_less)
qed

lemma point_step_form:
  "point_step L f p s =
    (if \<not> jgt (vec3_length (vec3_sub (f_x_a f) (position L s p))) (f_L f)
     then add_acc L p
       (vec3_scale (vec3_sub (f_x_a f) (position L s p))
          (jdiv (f_r f)
             (jpow (vec3_length (vec3_sub (f_x_a f) (position L s p))) (jadd (f_pow f) (Fin 1)))))
       s
     else s)"
  by (simp add: point_step_def point_len_def point_dir_def point_pull_def point_factor_def
      add_acc_def Let_def)

lemma sqrt_9: "sqrt 9 = 3"
  by (rule real_sqrt_unique) simp_all

lemma puller_fields:
  "f_enabled point_puller" "f_type point_puller = FORCE_POINT_ATTRACTOR"
  "f_p point_puller = [0, 1]" "f_x_a point_puller = (Fin (- 1), Fin 0, Fin 0)"
  "f_pow point_puller = Fin 2" "f_L point_puller = Fin 1.5" "f_r point_puller = Fin 3"
  by (simp_all add: point_puller_def init_attractor_def new_force_def)

lemma puller_dir:
  "point_dir layout10 point_puller two_particles 0 = (Fin (- 1), Fin 0, Fin 0)"
  "point_dir layout10 point_puller two_particles 1 = (Fin (- 3), Fin 0, Fin 0)"
  using position_two_0 position_two_1
  by (simp_all add: point_dir_def puller_fields vec3_sub_def jsub_def)

lemma puller_len:
  "point_len layout10 point_puller two_particles 0 = Fin 1"
  "point_len layout10 point_puller two_particles 1 = Fin 3"
  using puller_dir by (simp_all add: point_len_def vec3_length_def sqrt_9)

text \<open>
  The same loop over any list of targets: a target that passes the test receives its
  vector once for each time it is listed.
\<close>

lemma funpow_vec3_add:
  "((\<lambda>v. vec3_add v h) ^^ n) (vec3_add a h) = vec3_add (((\<lambda>v. vec3_add v h) ^^ n) a) h"
  by (induction n) simp_all

lemma fold_add_acc_count:
  assumes wf: "wf_layout L"
    and step: "\<And>p s. step p s =
      (if g (position L s p) then add_acc L p (h (position L s p)) s else s)"
  shows "position L (fold step ps s) q = position L s q \<and>
    force_acc L (fold step ps s) q =
      (if g (position L s q)
       then ((\<lambda>v. vec3_add v (h (position L s q))) ^^ count_list ps q) (force_acc L s q)
       else force_acc L s q)"
proof (induction ps arbitrary: s)
  case Nil
  show ?case by simp
next
  case (Cons p ps)
  have pos: "position L (step p s) q = position L s q" for q
    by (simp add: step position_add_acc[OF wf])
  have acc: "force_acc L (step p s) q =
      (if q = p \<and> g (position L s p) then vec3_add (force_acc L s p) (h (position L s p))
       else force_acc L s q)" for q
    by (simp add: step force_acc_add_acc[OF wf])
  show ?case
    using Cons.IH[of "step p s"]
    by (auto simp add: pos acc funpow_vec3_add)
qed

lemma point_fold_count:
  assumes wf: "wf_layout L"
  shows "force_acc L (fold (point_step L f) ps s) q =
    (if jgt (point_len L f s q) (f_L f) then force_acc L s q
     else ((\<lambda>v. vec3_add v (point_pull L f s q)) ^^ count_list ps q) (force_acc L s q))"
  using fold_add_acc_count[where step = "point_step L f", OF wf point_step_form, of ps s q]
  by (simp add: point_len_def point_dir_def point_pull_def point_factor_def)

text \<open>
  Claim C6, without the promise that the vector is not zero. For an enabled point
  attractor and any particle: when the distance from the particle to the anchor is
  greater than \<open>L\<close> its force accumulator is unchanged; otherwise \<open>apply\<close> adds to
  it, once for each time the particle is listed as a target, the vector from the
  particle to the anchor scaled by \<open>r / distance ^ (pow + 1)\<close>.
\<close>

theorem point_attractor_adds:
  assumes "wf_layout L" "f_enabled f" "f_type f = FORCE_POINT_ATTRACTOR"
  shows "(jgt (point_len L f s p) (f_L f) \<longrightarrow>
       force_acc L (apply_force L E rnd f s) p = force_acc L s p) \<and>
    (\<not> jgt (point_len L f s p) (f_L f) \<longrightarrow>
       force_acc L (apply_force L E rnd f s) p =
         ((\<lambda>v. vec3_add v
             (vec3_scale (point_dir L f s p)
                (jdiv (f_r f) (jpow (point_len L f s p) (jadd (f_pow f) (Fin 1))))))
           ^^ count_list (f_p f) p) (force_acc L s p))"
proof -
  have run: "apply_force L E rnd f s = fold (point_step L f) (f_p f) s"
    using assms(2,3) by (simp add: apply_force_def force_tags)
  have pull: "point_pull L f s p =
      vec3_scale (point_dir L f s p)
        (jdiv (f_r f) (jpow (point_len L f s p) (jadd (f_pow f) (Fin 1))))"
    by (simp add: point_pull_def point_factor_def)
  show ?thesis
    unfolding run pull[symmetric] by (simp add: point_fold_count[OF assms(1)])
qed

lemma twice_fields:
  "f_enabled point_twice" "f_type point_twice = FORCE_POINT_ATTRACTOR"
  "f_p point_twice = [0, 0]" "f_x_a point_twice = (Fin (- 1), Fin 0, Fin 0)"
  "f_pow point_twice = Fin 2" "f_L point_twice = Fin 1.5" "f_r point_twice = Fin 3"
  by (simp_all add: point_twice_def init_attractor_def new_force_def)

lemma twice_dir:
  "point_dir layout10 point_twice two_particles 0 = (Fin (- 1), Fin 0, Fin 0)"
  using position_two_0
  by (simp_all add: point_dir_def twice_fields vec3_sub_def jsub_def)

lemma twice_len: "point_len layout10 point_twice two_particles 0 = Fin 1"
  using twice_dir by (simp_all add: point_len_def vec3_length_def)

lemma steep_fields:
  "f_enabled point_steep" "f_type point_steep = FORCE_POINT_ATTRACTOR"
  "f_p point_steep = [1]" "f_x_a point_steep = (Fin 0, Fin 0, Fin 0)"
  "f_pow point_steep = PInf" "f_L point_steep = Fin 5" "f_r point_steep = Fin 3"
  by (simp_all add: point_steep_def init_attractor_def new_force_def)

lemma steep_dir:
  "point_dir layout10 point_steep two_particles 1 = (Fin (- 2), Fin 0, Fin 0)"
  using position_two_1
  by (simp_all add: point_dir_def steep_fields vec3_sub_def jsub_def)

lemma steep_len: "point_len layout10 point_steep two_particles 1 = Fin 2"
  using steep_dir by (simp_all add: point_len_def vec3_length_def)

text \<open>
  With an infinite exponent the quotient \<open>r / distance ^ (pow + 1)\<close> is zero: for
  \<open>r = 3\<close> and a particle at distance 2, inside \<open>L = 5\<close>, the scaled vector is the
  zero vector and the accumulator stays as it was.
\<close>

theorem point_attractor_vanishing_counterexample:
  "f_enabled point_steep \<and> f_p point_steep = [1] \<and> f_r point_steep = Fin 3 \<and>
   point_len layout10 point_steep two_particles 1 = Fin 2 \<and>
   \<not> jgt (point_len layout10 point_steep two_particles 1) (f_L point_steep) \<and>
   vec3_scale (point_dir layout10 point_steep two_particles 1)
     (jdiv (f_r point_steep)
        (jpow (point_len layout10 point_steep two_particles 1)
           (jadd (f_pow point_steep) (Fin 1))))
     = (Fin 0, Fin 0, Fin 0) \<and>
   force_acc layout10 (apply_force layout10 env0 calm point_steep two_particles) 1
     = force_acc layout10 two_particles 1"
proof -
  have run: "apply_force layout10 env0 calm point_steep two_particles
      = fold (point_step layout10 point_steep) [1] two_particles"
    by (simp add: apply_force_def steep_fields force_tags)
  have zero: "point_pull layout10 point_steep two_particles 1 = (Fin 0, Fin 0, Fin 0)"
    using steep_dir steep_len
    by (simp add: point_pull_def point_factor_def steep_fields vec3_scale_def)
  have same: "force_acc layout10 (apply_force layout10 env0 calm point_steep two_particles) 1
     = force_acc layout10 two_particles 1"
    unfolding run
    using zero steep_len point_fold_count[OF wf_layout10, of point_steep "[1]" two_particles 1]
    by (simp add: steep_fields jgt_def)
  show ?thesis
    using zero[unfolded point_pull_def point_factor_def] same steep_len
    by (simp add: steep_fields jgt_def)
qed

theorem point_attractor_adds_witness:
  "wf_layout layout10 \<and> f_enabled point_puller \<and>
   f_type point_puller = FORCE_POINT_ATTRACTOR \<and>
   jgt (point_len layout10 point_puller two_particles 1) (f_L point_puller) \<and>
   force_acc layout10 (apply_force layout10 env0 calm point_puller two_particles) 1
     = (Fin 0, Fin 0, Fin 0) \<and>
   \<not> jgt (point_len layout10 point_puller two_particles 0) (f_L point_puller) \<and>
   count_list (f_p point_puller) 0 = 1 \<and>
   force_acc layout10 (apply_force layout10 env0 calm point_puller two_particles) 0
     = (Fin (- 3), Fin 0, Fin 0) \<and>
   f_enabled point_twice \<and> f_type point_twice = FORCE_POINT_ATTRACTOR \<and>
   \<not> jgt (point_len layout10 point_twice two_particles 0) (f_L point_twice) \<and>
   count_list (f_p point_twice) 0 = 2 \<and>
   force_acc layout10 (apply_force layout10 env0 calm point_twice two_particles) 0
     = (Fin (- 6), Fin 0, Fin 0)"
proof -
  have once: "count_list (f_p point_puller) 0 = 1" "count_list (f_p point_puller) 1 = 1"
    by (simp_all add: puller_fields)
  have twice: "count_list (f_p point_twice) 0 = 2"
    by (simp add: twice_fields)
  show ?thesis
    using point_attractor_adds [OF wf_layout10 puller_fields(1,2),
        of two_particles 0 env0 calm]
      point_attractor_adds [OF wf_layout10 puller_fields(1,2),
        of two_particles 1 env0 calm]
      point_attractor_adds [OF wf_layout10 twice_fields(1,2),
        of two_particles 0 env0 calm]
      wf_layout10 puller_fields twice_fields once twice puller_len puller_dir
      twice_len twice_dir force_two
    by (simp add: jgt_def vec3_add_def vec3_scale_def numeral_2_eq_2)
qed

subsection \<open>Line attractor\<close>

lemma jpow_pos: "0 < r \<Longrightarrow> jpow (Fin r) (Fin y) = Fin (r powr y)"
  by simp

lemma line_step_form:
  "line_step L f p s =
    (if (jle epsilon (vec3_dot (vec3_sub (position L s p) (f_x_a f)) (f_a f)) \<and>
         jlt (vec3_dot (vec3_sub (position L s p) (f_x_a f)) (f_a f)) (f_L f))
     then add_acc L p
       (vec3_scale
          (vec3_scaleAndAdd (vec3_sub (position L s p) (f_x_a f)) (f_a f)
             (jneg (vec3_dot (vec3_sub (position L s p) (f_x_a f)) (f_a f))))
          (jmul (Fin (- 9.8))
             (jpow (vec3_length
                      (vec3_scaleAndAdd (vec3_sub (position L s p) (f_x_a f)) (f_a f)
                         (jneg (vec3_dot (vec3_sub (position L s p) (f_x_a f)) (f_a f)))))
                (jadd (f_pow f) (Fin 1)))))
       s
     else s)"
  by (simp add: line_step_def line_in_segment_def line_l_ai_def line_x_ai_def line_a_ai_def
      line_r_ai_def add_acc_def Let_def)

lemma line_fold:
  assumes wf: "wf_layout L" and d: "distinct ps"
  shows "force_acc L (fold (line_step L f) ps s) q =
    (if q \<in> set ps \<and> line_in_segment L f s q
     then vec3_add (force_acc L s q) (line_a_ai L f s q) else force_acc L s q)"
  using fold_add_acc[where step = "line_step L f"
      and g = "\<lambda>x. jle epsilon (vec3_dot (vec3_sub x (f_x_a f)) (f_a f)) \<and>
         jlt (vec3_dot (vec3_sub x (f_x_a f)) (f_a f)) (f_L f)"
      and h = "\<lambda>x. vec3_scale
          (vec3_scaleAndAdd (vec3_sub x (f_x_a f)) (f_a f)
             (jneg (vec3_dot (vec3_sub x (f_x_a f)) (f_a f))))
          (jmul (Fin (- 9.8))
             (jpow (vec3_length
                      (vec3_scaleAndAdd (vec3_sub x (f_x_a f)) (f_a f)
                         (jneg (vec3_dot (vec3_sub x (f_x_a f)) (f_a f)))))
                (jadd (f_pow f) (Fin 1))))",
      OF wf line_step_form d, of s q]
  by (simp add: line_in_segment_def line_l_ai_def line_x_ai_def line_a_ai_def
      line_r_ai_def Let_def)

lemma line_a_ai_length:
  assumes r: "vec3_length (line_r_ai L f s p) = Fin r" "0 < r" and pw: "f_pow f = Fin pw"
  shows "line_a_ai L f s p = vec3_scale (line_r_ai L f s p) (Fin (- (9.8 * r powr (pw + 1))))
    \<and> vec3_length (line_a_ai L f s p) = Fin (9.8 * r powr (pw + 1) * r)"
proof -
  obtain a b c where v: "line_r_ai L f s p = (Fin a, Fin b, Fin c)"
    and rr: "r = sqrt (a * a + b * b + c * c)"
    using vec3_length_Fin[OF r(1)] by blast
  have a: "line_a_ai L f s p =
      vec3_scale (line_r_ai L f s p) (Fin (- (9.8 * r powr (pw + 1))))"
    using r(2) by (simp add: line_a_ai_def r(1) pw Let_def)
  have "vec3_length (line_a_ai L f s p) = Fin (\<bar>- (9.8 * r powr (pw + 1))\<bar> * r)"
    unfolding a v rr by (rule vec3_length_scale)
  then show ?thesis using a by simp
qed

text \<open>
  What the line attractor does for distinct targets: the force accumulator of a
  particle changes only if the particle is a target whose axial offset \<open>l_ai\<close> lies
  in \<open>[0.01, L)\<close>; for such a target \<open>apply\<close> adds the radial offset \<open>r_ai\<close> scaled
  by \<open>-9.8 * r ^ (pow + 1)\<close>, where \<open>r\<close> is the length of \<open>r_ai\<close>. In exact arithmetic
  the length of that vector is \<open>9.8 * r ^ (pow + 1) * r\<close>.
\<close>

lemma line_attractor_pull:
  assumes "wf_layout L" "f_enabled f" "f_type f = FORCE_LINE_ATTRACTOR" "distinct (f_p f)"
  shows "(force_acc L (apply_force L E rnd f s) p \<noteq> force_acc L s p \<longrightarrow>
       p \<in> set (f_p f) \<and> jle (Fin 0.01) (line_l_ai L f s p) \<and>
       jlt (line_l_ai L f s p) (f_L f)) \<and>
    (p \<in> set (f_p f) \<and> jle (Fin 0.01) (line_l_ai L f s p) \<and>
       jlt (line_l_ai L f s p) (f_L f) \<longrightarrow>
       force_acc L (apply_force L E rnd f s) p =
         vec3_add (force_acc L s p)
           (vec3_scale (line_r_ai L f s p)
              (jmul (Fin (- 9.8))
                 (jpow (vec3_length (line_r_ai L f s p)) (jadd (f_pow f) (Fin 1)))))) \<and>
    (\<forall>r pw. vec3_length (line_r_ai L f s p) = Fin r \<and> 0 < r \<and> f_pow f = Fin pw \<longrightarrow>
       vec3_scale (line_r_ai L f s p)
         (jmul (Fin (- 9.8)) (jpow (vec3_length (line_r_ai L f s p)) (jadd (f_pow f) (Fin 1))))
         = vec3_scale (line_r_ai L f s p) (Fin (- (9.8 * r powr (pw + 1)))) \<and>
       vec3_length
         (vec3_scale (line_r_ai L f s p)
            (jmul (Fin (- 9.8))
               (jpow (vec3_length (line_r_ai L f s p)) (jadd (f_pow f) (Fin 1)))))
         = Fin (9.8 * r powr (pw + 1) * r))"
proof -
  have run: "apply_force L E rnd f s = fold (line_step L f) (f_p f) s"
    using assms(2,3) by (simp add: apply_force_def force_tags)
  have seg: "line_in_segment L f s p =
      (jle (Fin 0.01) (line_l_ai L f s p) \<and> jlt (line_l_ai L f s p) (f_L f))"
    by (simp add: line_in_segment_def epsilon_def)
  have pull: "line_a_ai L f s p =
      vec3_scale (line_r_ai L f s p)
        (jmul (Fin (- 9.8)) (jpow (vec3_length (line_r_ai L f s p)) (jadd (f_pow f) (Fin 1))))"
    by (simp add: line_a_ai_def Let_def)
  have only: "force_acc L (apply_force L E rnd f s) p \<noteq> force_acc L s p \<longrightarrow>
      p \<in> set (f_p f) \<and> line_in_segment L f s p"
    by (simp add: run line_fold[OF assms(1,4)])
  have adds: "p \<in> set (f_p f) \<and> line_in_segment L f s p \<longrightarrow>
      force_acc L (apply_force L E rnd f s) p =
        vec3_add (force_acc L s p) (line_a_ai L f s p)"
    by (simp add: run line_fold[OF assms(1,4)])
  have mag: "\<forall>r pw. vec3_length (line_r_ai L f s p) = Fin r \<and> 0 < r \<and> f_pow f = Fin pw \<longrightarrow>
      line_a_ai L f s p = vec3_scale (line_r_ai L f s p) (Fin (- (9.8 * r powr (pw + 1)))) \<and>
      vec3_length (line_a_ai L f s p) = Fin (9.8 * r powr (pw + 1) * r)"
    using line_a_ai_length by blast
  show ?thesis
    using only adds mag unfolding seg pull by blast
qed


lemma line_puller_fields:
  "f_enabled line_puller" "f_type line_puller = FORCE_LINE_ATTRACTOR"
  "f_p line_puller = [0]" "f_x_a line_puller = (Fin 0, Fin 0, Fin 0)"
  "f_a line_puller = (Fin 1, Fin 0, Fin 0)"
  "f_pow line_puller = Fin 2" "f_L line_puller = Fin 10"
  by (simp_all add: line_puller_def init_attractor_def new_force_def)

lemma position_off_line: "position layout10 off_line 0 = (Fin 1, Fin 2, Fin 0)"
  by (simp add: position_def layout10_def off_line_def at_rest_def particle_def
      vec3_create_def slot_def rd_def)

lemma line_puller_l_ai: "line_l_ai layout10 line_puller off_line 0 = Fin 1"
  by (simp add: line_l_ai_def line_x_ai_def position_off_line line_puller_fields
      vec3_sub_def vec3_dot_def jsub_def)

lemma line_puller_r_ai: "line_r_ai layout10 line_puller off_line 0 = (Fin 0, Fin 2, Fin 0)"
  by (simp add: line_r_ai_def line_puller_l_ai line_x_ai_def position_off_line
      line_puller_fields vec3_sub_def vec3_scaleAndAdd_def jsub_def)

lemma line_puller_r: "vec3_length (line_r_ai layout10 line_puller off_line 0) = Fin 2"
  by (simp add: line_puller_r_ai vec3_length_def)

lemma line_puller_a_ai:
  "line_a_ai layout10 line_puller off_line 0 = (Fin 0, Fin (- 156.8), Fin 0)"
  by (simp add: line_a_ai_def line_puller_r line_puller_fields Let_def)
    (simp add: line_puller_r_ai vec3_scale_def)

lemma line_puller_segment: "line_in_segment layout10 line_puller off_line 0"
  by (simp add: line_in_segment_def line_puller_l_ai epsilon_def jle_def line_puller_fields)

text \<open>
  Claim C5. The line attractor should pull a target in its segment toward the line
  with an inverse-power law of magnitude \<open>9.8 * r ^ (pow + 1)\<close>. The guard and the
  direction are as claimed, but the kernel multiplies the radial offset, which is
  not normalised, by \<open>-9.8 * r ^ (pow + 1)\<close>: for a particle at (1, 2, 0), the x axis
  as the line and the exponent 2, \<open>r\<close> is 2, the vector added is (0, -156.8, 0), of
  length 156.8, where \<open>9.8 * r ^ (pow + 1)\<close> is 78.4.
\<close>

theorem line_attractor_scales_by_power:
  "line_in_segment layout10 line_puller off_line 0 \<and>
   vec3_length (line_r_ai layout10 line_puller off_line 0) = Fin 2 \<and>
   force_acc layout10 (apply_force layout10 env0 calm line_puller off_line) 0
     = vec3_add (force_acc layout10 off_line 0) (Fin 0, Fin (- 156.8), Fin 0) \<and>
   vec3_length (Fin 0, Fin (- 156.8), Fin 0) = Fin 156.8 \<and>
   jmul (Fin 9.8)
     (jpow (vec3_length (line_r_ai layout10 line_puller off_line 0))
        (jadd (f_pow line_puller) (Fin 1))) = Fin 78.4 \<and>
   vec3_length (Fin 0, Fin (- 156.8), Fin 0) \<noteq>
     jmul (Fin 9.8)
       (jpow (vec3_length (line_r_ai layout10 line_puller off_line 0))
          (jadd (f_pow line_puller) (Fin 1)))"
proof -
  have run: "apply_force layout10 env0 calm line_puller off_line
      = line_step layout10 line_puller 0 off_line"
    by (simp add: apply_force_def line_puller_fields force_tags)
  have step: "line_step layout10 line_puller 0 off_line
      = add_acc layout10 0 (Fin 0, Fin (- 156.8), Fin 0) off_line"
    by (simp add: line_step_def line_puller_segment line_puller_a_ai add_acc_def Let_def)
  have len: "vec3_length (Fin 0, Fin (- 156.8), Fin 0) = Fin 156.8"
    using vec3_length_scale[of 0 1 0 "- 156.8"] by (simp add: vec3_scale_def)
  show ?thesis
    using len
    by (simp add: line_puller_segment line_puller_r run step
        force_acc_add_acc[OF wf_layout10] line_puller_fields)
qed

subsection \<open>Flock\<close>

lemma flock_skipped_fold:
  "(\<forall>j \<in> set js. flock_skip L f s i j) \<Longrightarrow>
    fold (flock_neighbour L E f x_p s i) js a = a"
  by (induction js arbitrary: a) (simp_all add: flock_neighbour_def)

lemma flock_skip_self: "flock_skip L f s i i"
  by (simp add: flock_skip_def)

lemma flock_a_i_skipped:
  assumes "\<forall>j<length (f_p f). j \<noteq> i \<longrightarrow> flock_skip L f s i j"
  shows "flock_a_i L E f x_p s i = vec3_create"
proof -
  have "\<forall>j \<in> set [0..<length (f_p f)]. flock_skip L f s i j"
    using assms flock_skip_self by (metis atLeastLessThan_iff set_upt)
  then show ?thesis
    unfolding flock_a_i_def by (rule flock_skipped_fold)
qed

lemma flock_step_add_acc:
  "flock_step L E f x_p i s = add_acc L (f_p f ! i) (flock_a_i L E f x_p s i) s"
  by (simp add: flock_step_def add_acc_def Let_def)

lemma cruising_position:
  "position layout10 cruising 0 = (Fin 0, Fin 0, Fin 0)"
  "position layout10 cruising 1 = (Fin 2, Fin 0, Fin 0)"
  by (simp_all add: position_def layout10_def cruising_def particle_def
      vec3_create_def slot_def rd_def nth_append)

lemma cruising_velocity:
  "velocity layout10 cruising 0 = (Fin 1, Fin 0, Fin 0)"
  "velocity layout10 cruising 1 = (Fin 1, Fin 0, Fin 0)"
  by (simp_all add: velocity_def layout10_def cruising_def particle_def
      vec3_create_def slot_def rd_def nth_append)

lemma flock_short_fields:
  "f_enabled flock_short" "f_type flock_short = FORCE_FLOCK" "f_p flock_short = [0, 1]"
  "f_r2 flock_short = Fin 1" "f_koa flock_short = Fin 1" "f_kgs flock_short = Fin 1"
  by (simp_all add: flock_short_def init_boid_def new_force_def)

lemma flock_wide_fields:
  "f_p flock_wide = [0, 1]" "f_r1 flock_wide = Fin 5" "f_r2 flock_wide = Fin 10"
  "f_t1 flock_wide = Fin 2" "f_t2 flock_wide = Fin 4" "f_ka flock_wide = Fin 1"
  by (simp_all add: flock_wide_def init_boid_def new_force_def)

lemma cruising_x_ij:
  "f_p f = [0, 1] \<Longrightarrow> flock_x_ij layout10 f cruising 0 1 = (Fin 2, Fin 0, Fin 0)"
  using cruising_position by (simp add: flock_x_ij_def vec3_sub_def jsub_def)

lemma cruising_d_ij:
  "f_p f = [0, 1] \<Longrightarrow> flock_d_ij layout10 f cruising 0 1 = Fin 2"
  using cruising_x_ij[of f] by (simp add: flock_d_ij_def vec3_length_def)

lemma cruising_t_ij:
  "f_p f = [0, 1] \<Longrightarrow> flock_t_ij layout10 f cruising 0 1 = Fin 0"
  using cruising_velocity cruising_x_ij[of f]
  by (simp add: flock_t_ij_def vec3_angle_def vec3_normalize_def
      vec3_scale_def vec3_dot_def jgt_def Let_def)

lemma flock_wide_weight: "flock_weight layout10 flock_wide cruising 0 1 = Fin 1"
  using cruising_d_ij[OF flock_wide_fields(1)] cruising_t_ij[OF flock_wide_fields(1)]
  by (simp add: flock_weight_def flock_wide_fields flock_k_d_def flock_k_t_def)

lemma flock_wide_x_hat: "flock_x_hat layout10 flock_wide cruising 0 1 = (Fin 4, Fin 0, Fin 0)"
  using cruising_d_ij[OF flock_wide_fields(1)] cruising_x_ij[OF flock_wide_fields(1)]
  by (simp add: flock_x_hat_def vec3_scale_def)

text \<open>
  For finite values and a positive distance the collision-avoidance vector is the
  vector to the neighbour times \<open>-(weight * k_a)\<close>: the division by \<open>d_ij\<close> cancels
  the factor \<open>d_ij\<close> in \<open>x_hat\<close>.
\<close>

lemma flock_avoidance_linear:
  assumes "flock_x_ij L f s i j = (Fin a, Fin b, Fin c)" "flock_d_ij L f s i j = Fin d"
    "0 < d" "flock_weight L f s i j = Fin w" "f_ka f = Fin ka"
  shows "flock_avoidance L f s i j = (Fin (- (w * ka) * a), Fin (- (w * ka) * b),
    Fin (- (w * ka) * c))"
  using assms by (simp add: flock_avoidance_def flock_x_hat_def vec3_scale_def)

text \<open>
  Claim C4. Collision avoidance should be \<open>-(k_a / d_ij)\<close> times the unit vector to
  the neighbour, weighted by \<open>k_t\<close> and \<open>k_d\<close>. For two boids at distance 2 in full
  view, with \<open>k_a = 1\<close>, that is (-0.5, 0, 0); the vector the kernel adds is
  (-2, 0, 0), because \<open>x_hat\<close> is the vector to the neighbour multiplied by the
  distance, not divided by it.
\<close>

theorem flock_avoidance_grows_with_distance:
  "\<not> flock_skip layout10 flock_wide cruising 0 1 \<and>
   flock_x_ij layout10 flock_wide cruising 0 1 = (Fin 2, Fin 0, Fin 0) \<and>
   flock_d_ij layout10 flock_wide cruising 0 1 = Fin 2 \<and>
   flock_weight layout10 flock_wide cruising 0 1 = Fin 1 \<and>
   f_ka flock_wide = Fin 1 \<and>
   flock_avoidance layout10 flock_wide cruising 0 1 = (Fin (- 2), Fin 0, Fin 0) \<and>
   vec3_scale (vec3_normalize (flock_x_ij layout10 flock_wide cruising 0 1))
     (jmul (flock_weight layout10 flock_wide cruising 0 1)
        (jdiv (jmul (Fin (- 1)) (f_ka flock_wide))
           (flock_d_ij layout10 flock_wide cruising 0 1)))
     = (Fin (- 0.5), Fin 0, Fin 0)"
  using cruising_d_ij[OF flock_wide_fields(1)] cruising_t_ij[OF flock_wide_fields(1)]
    cruising_x_ij[OF flock_wide_fields(1)] flock_wide_x_hat flock_wide_weight
  by (simp add: flock_skip_def flock_avoidance_def flock_wide_fields jgt_def
      vec3_scale_def vec3_normalize_def)

text \<open>
  The inner loop as a loop over the neighbours that pass the test, and the outer
  loop over distinct targets: each boid receives its own acceleration, computed from
  the positions and velocities of the buffer that \<open>apply\<close> was given.
\<close>

lemma fold_unless:
  "fold (\<lambda>j a. if P j then a else g j a) js a = fold g (filter (\<lambda>j. \<not> P j) js) a"
  by (induction js arbitrary: a) simp_all

lemma flock_a_i_visible:
  "flock_a_i L E f x_p s i =
    fold (\<lambda>j a. vec3_add (vec3_add (vec3_add (vec3_add (vec3_add a
            (flock_avoidance L f s i j)) (flock_matching L f s i j))
            (flock_centering L f s i j)) (flock_obstacle L f x_p s i)) (flock_goal L E f s i))
      (filter (\<lambda>j. \<not> flock_skip L f s i j) [0..<length (f_p f)]) (Fin 0, Fin 0, Fin 0)"
proof -
  have "flock_neighbour L E f x_p s i =
      (\<lambda>j a. if flock_skip L f s i j then a
        else vec3_add (vec3_add (vec3_add (vec3_add (vec3_add a
            (flock_avoidance L f s i j)) (flock_matching L f s i j))
            (flock_centering L f s i j)) (flock_obstacle L f x_p s i)) (flock_goal L E f s i))"
    by (intro ext) (simp add: flock_neighbour_def)
  then show ?thesis
    by (simp add: flock_a_i_def fold_unless vec3_create_def)
qed

lemma flock_neighbour_cong:
  assumes "\<And>q. position L s' q = position L s q" "\<And>q. velocity L s' q = velocity L s q"
  shows "flock_neighbour L E f x_p s' i = flock_neighbour L E f x_p s i"
  by (intro ext)
    (simp add: flock_neighbour_def flock_skip_def flock_avoidance_def flock_x_hat_def
      flock_weight_def flock_matching_def flock_centering_def flock_obstacle_def
      flock_goal_def flock_d_ij_def flock_t_ij_def flock_x_ij_def assms)

lemma flock_a_i_cong:
  assumes "\<And>q. position L s' q = position L s q" "\<And>q. velocity L s' q = velocity L s q"
  shows "flock_a_i L E f x_p s' i = flock_a_i L E f x_p s i"
  by (simp add: flock_a_i_def flock_neighbour_cong[OF assms])

lemma flock_fold_acc:
  assumes wf: "wf_layout L" and d: "distinct (f_p f)" and i: "i < length (f_p f)"
  shows "distinct ks \<Longrightarrow> \<forall>k \<in> set ks. k < length (f_p f) \<Longrightarrow>
    (\<forall>q. position L (fold (flock_step L E f x_p) ks s) q = position L s q) \<and>
    (\<forall>q. velocity L (fold (flock_step L E f x_p) ks s) q = velocity L s q) \<and>
    force_acc L (fold (flock_step L E f x_p) ks s) (f_p f ! i) =
      (if i \<in> set ks then vec3_add (force_acc L s (f_p f ! i)) (flock_a_i L E f x_p s i)
       else force_acc L s (f_p f ! i))"
proof (induction ks arbitrary: s)
  case Nil
  show ?case by simp
next
  case (Cons k ks)
  let ?s1 = "flock_step L E f x_p k s"
  have k: "k < length (f_p f)" and ks: "\<forall>k \<in> set ks. k < length (f_p f)"
    and dk: "distinct ks" and nk: "k \<notin> set ks"
    using Cons.prems by simp_all
  have pos: "position L ?s1 q = position L s q" for q
    by (simp add: flock_step_add_acc position_add_acc[OF wf])
  have vel: "velocity L ?s1 q = velocity L s q" for q
    by (simp add: flock_step_add_acc velocity_add_acc[OF wf])
  have same: "flock_a_i L E f x_p ?s1 i = flock_a_i L E f x_p s i"
    by (rule flock_a_i_cong[OF pos vel])
  have acc: "force_acc L ?s1 (f_p f ! i) =
      (if k = i then vec3_add (force_acc L s (f_p f ! i)) (flock_a_i L E f x_p s i)
       else force_acc L s (f_p f ! i))"
  proof (cases "k = i")
    case True
    then show ?thesis
      by (simp add: flock_step_add_acc force_acc_add_acc[OF wf])
  next
    case False
    then have "f_p f ! i \<noteq> f_p f ! k"
      using d i k by (simp add: nth_eq_iff_index_eq)
    with False show ?thesis
      by (simp add: flock_step_add_acc force_acc_add_acc[OF wf])
  qed
  have rest: "force_acc L (fold (flock_step L E f x_p) ks ?s1) (f_p f ! i) =
      (if i \<in> set ks then vec3_add (force_acc L ?s1 (f_p f ! i)) (flock_a_i L E f x_p s i)
       else force_acc L ?s1 (f_p f ! i))"
    using Cons.IH[OF dk ks, of ?s1] by (simp add: same)
  have "force_acc L (fold (flock_step L E f x_p) ks ?s1) (f_p f ! i) =
      (if i \<in> set (k # ks)
       then vec3_add (force_acc L s (f_p f ! i)) (flock_a_i L E f x_p s i)
       else force_acc L s (f_p f ! i))"
  proof (cases "k = i")
    case True
    with nk have "i \<notin> set ks" by simp
    with True rest acc show ?thesis by simp
  next
    case False
    with rest acc show ?thesis by simp
  qed
  then show ?case
    using Cons.IH[OF dk ks, of ?s1] by (simp add: pos vel)
qed

lemma fold_add_zero:
  "\<forall>k \<in> set ks. a k = (Fin 0, Fin 0, Fin 0) \<Longrightarrow>
    fold (\<lambda>k v. vec3_add v (a k)) ks v = v"
  by (induction ks arbitrary: v) simp_all

text \<open>
  Without the assumption that the targets are distinct: every index of the target
  list contributes its acceleration to the particle it names.
\<close>

lemma flock_fold_any:
  assumes wf: "wf_layout L"
  shows "(\<forall>q. position L (fold (flock_step L E f x_p) ks s) q = position L s q) \<and>
    (\<forall>q. velocity L (fold (flock_step L E f x_p) ks s) q = velocity L s q) \<and>
    force_acc L (fold (flock_step L E f x_p) ks s) q =
      fold (\<lambda>k v. vec3_add v (flock_a_i L E f x_p s k))
        (filter (\<lambda>k. f_p f ! k = q) ks) (force_acc L s q)"
proof (induction ks arbitrary: s)
  case Nil
  show ?case by simp
next
  case (Cons k ks)
  let ?s1 = "flock_step L E f x_p k s"
  have pos: "position L ?s1 q = position L s q" for q
    by (simp add: flock_step_add_acc position_add_acc[OF wf])
  have vel: "velocity L ?s1 q = velocity L s q" for q
    by (simp add: flock_step_add_acc velocity_add_acc[OF wf])
  have same: "flock_a_i L E f x_p ?s1 = flock_a_i L E f x_p s"
    by (intro ext) (rule flock_a_i_cong[OF pos vel])
  have acc: "force_acc L ?s1 q =
      (if f_p f ! k = q then vec3_add (force_acc L s q) (flock_a_i L E f x_p s k)
       else force_acc L s q)"
    by (auto simp add: flock_step_add_acc force_acc_add_acc[OF wf])
  show ?case
    using Cons.IH[of ?s1] by (simp add: pos vel same acc)
qed

text \<open>
  Two indices that name the same particle see the same neighbours, up to the
  comparison of the indices themselves.
\<close>

lemma flock_skip_same_particle:
  assumes "f_p f ! k = f_p f ! i"
  shows "flock_skip L f s k j =
    (k = j \<or> jeq (flock_d_ij L f s i j) (Fin 0) \<or> jgt (flock_d_ij L f s i j) (f_r2 f)
      \<or> jgt (flock_t_ij L f s i j) (jmul (f_t2 f) (Fin 0.5)))"
  by (simp add: flock_skip_def flock_d_ij_def flock_t_ij_def flock_x_ij_def assms)

lemma flock_pair_same_particle:
  assumes "f_p f ! k = f_p f ! i"
  shows "flock_d_ij L f s i i = flock_d_ij L f s i k"
    "flock_t_ij L f s i i = flock_t_ij L f s i k"
  by (simp_all add: flock_d_ij_def flock_t_ij_def flock_x_ij_def assms)

lemma flock_skipped_same_particle:
  assumes others: "\<forall>j<length (f_p f). j \<noteq> i \<longrightarrow> flock_skip L f s i j"
    and same: "f_p f ! k = f_p f ! i" and k: "k < length (f_p f)" and j: "j < length (f_p f)"
  shows "flock_skip L f s k j"
proof (cases "k = i")
  case True
  then show ?thesis
    using others j flock_skip_self by (cases "j = i") auto
next
  case False
  have far: "jeq (flock_d_ij L f s i j') (Fin 0) \<or> jgt (flock_d_ij L f s i j') (f_r2 f)
      \<or> jgt (flock_t_ij L f s i j') (jmul (f_t2 f) (Fin 0.5))"
    if "j' < length (f_p f)" "j' \<noteq> i" for j'
    using others that by (auto simp add: flock_skip_def)
  show ?thesis
  proof (cases "j = i")
    case True
    have "jeq (flock_d_ij L f s i k) (Fin 0) \<or> jgt (flock_d_ij L f s i k) (f_r2 f)
      \<or> jgt (flock_t_ij L f s i k) (jmul (f_t2 f) (Fin 0.5))"
      using far[OF k False] .
    then show ?thesis
      unfolding flock_skip_same_particle[OF same] True flock_pair_same_particle[OF same]
      by simp
  next
    case False
    then show ?thesis
      unfolding flock_skip_same_particle[OF same] using far[OF j False] by simp
  qed
qed

lemma flock_a_i_same_particle:
  assumes others: "\<forall>j<length (f_p f). j \<noteq> i \<longrightarrow> flock_skip L f s i j"
    and same: "f_p f ! k = f_p f ! i" and k: "k < length (f_p f)"
  shows "flock_a_i L E f x_p s k = (Fin 0, Fin 0, Fin 0)"
proof -
  have "\<forall>j<length (f_p f). j \<noteq> k \<longrightarrow> flock_skip L f s k j"
    using flock_skipped_same_particle[OF others same k] by blast
  then show ?thesis
    using flock_a_i_skipped[of f k L s E x_p] by (simp add: vec3_create_def)
qed

text \<open>
  Claim C10. For an enabled flock, \<open>apply\<close> adds to the force accumulator of every
  particle, for each index \<open>k\<close> of the target list that names it, the acceleration
  of the boid \<open>k\<close>; with distinct targets that is one acceleration for the boid \<open>i\<close>.
  That acceleration is the sum, over the neighbours \<open>j\<close> that pass the visibility test
  (another boid, at a distance that is not zero and at most \<open>max_rad\<close>, seen within
  half the monocular angle), of five vectors: avoidance, velocity matching and
  centering for \<open>j\<close>, and with them, once for each such \<open>j\<close>, the obstacle-avoidance
  and the goal-seeking vector of the boid. So if every other target is skipped for
  \<open>i\<close>, the force accumulator of \<open>i\<close> is unchanged: it receives no obstacle-avoidance
  or goal-seeking force either.
\<close>

theorem flock_once_per_neighbour:
  assumes "wf_layout L" "f_enabled f" "f_type f = FORCE_FLOCK"
  shows "(\<forall>q. force_acc L (apply_force L E rnd f s) q =
       fold (\<lambda>k v. vec3_add v (flock_a_i L E f (predator L E s) s k))
         (filter (\<lambda>k. f_p f ! k = q) [0..<length (f_p f)]) (force_acc L s q)) \<and>
    (distinct (f_p f) \<and> i < length (f_p f) \<longrightarrow>
       force_acc L (apply_force L E rnd f s) (f_p f ! i) =
         vec3_add (force_acc L s (f_p f ! i)) (flock_a_i L E f (predator L E s) s i)) \<and>
    (\<forall>k. flock_a_i L E f (predator L E s) s k =
       fold (\<lambda>j a. vec3_add (vec3_add (vec3_add (vec3_add (vec3_add a
                (flock_avoidance L f s k j)) (flock_matching L f s k j))
                (flock_centering L f s k j))
                (flock_obstacle L f (predator L E s) s k)) (flock_goal L E f s k))
         (filter (\<lambda>j. \<not> flock_skip L f s k j) [0..<length (f_p f)])
         (Fin 0, Fin 0, Fin 0)) \<and>
    (\<forall>k j. flock_skip L f s k j =
       (k = j \<or> jeq (flock_d_ij L f s k j) (Fin 0) \<or> jgt (flock_d_ij L f s k j) (f_r2 f)
        \<or> jgt (flock_t_ij L f s k j) (jmul (f_t2 f) (Fin 0.5)))) \<and>
    (i < length (f_p f) \<and> (\<forall>j<length (f_p f). j \<noteq> i \<longrightarrow> flock_skip L f s i j) \<longrightarrow>
       force_acc L (apply_force L E rnd f s) (f_p f ! i) = force_acc L s (f_p f ! i))"
proof -
  have run: "apply_force L E rnd f s
      = fold (flock_step L E f (predator L E s)) [0..<length (f_p f)] s"
    using assms(2,3) by (simp add: apply_force_def force_tags flock_apply_def)
  have written: "force_acc L (apply_force L E rnd f s) q =
       fold (\<lambda>k v. vec3_add v (flock_a_i L E f (predator L E s) s k))
         (filter (\<lambda>k. f_p f ! k = q) [0..<length (f_p f)]) (force_acc L s q)" for q
    using flock_fold_any[OF assms(1), of E f "predator L E s" "[0..<length (f_p f)]" s q]
    by (simp add: run)
  have once: "distinct (f_p f) \<and> i < length (f_p f) \<longrightarrow>
       force_acc L (apply_force L E rnd f s) (f_p f ! i) =
         vec3_add (force_acc L s (f_p f ! i)) (flock_a_i L E f (predator L E s) s i)"
  proof (intro impI, elim conjE)
    assume d: "distinct (f_p f)" and i: "i < length (f_p f)"
    have "distinct [0..<length (f_p f)]"
      "\<forall>k \<in> set [0..<length (f_p f)]. k < length (f_p f)"
      by simp_all
    then show "force_acc L (apply_force L E rnd f s) (f_p f ! i) =
         vec3_add (force_acc L s (f_p f ! i)) (flock_a_i L E f (predator L E s) s i)"
      using flock_fold_acc[OF assms(1) d i, of "[0..<length (f_p f)]" E "predator L E s" s] i
      by (simp add: run)
  qed
  have visible: "\<forall>k. flock_a_i L E f (predator L E s) s k =
       fold (\<lambda>j a. vec3_add (vec3_add (vec3_add (vec3_add (vec3_add a
                (flock_avoidance L f s k j)) (flock_matching L f s k j))
                (flock_centering L f s k j))
                (flock_obstacle L f (predator L E s) s k)) (flock_goal L E f s k))
         (filter (\<lambda>j. \<not> flock_skip L f s k j) [0..<length (f_p f)])
         (Fin 0, Fin 0, Fin 0)"
    using flock_a_i_visible by blast
  have test: "\<forall>k j. flock_skip L f s k j =
       (k = j \<or> jeq (flock_d_ij L f s k j) (Fin 0) \<or> jgt (flock_d_ij L f s k j) (f_r2 f)
        \<or> jgt (flock_t_ij L f s k j) (jmul (f_t2 f) (Fin 0.5)))"
    by (simp add: flock_skip_def)
  have none: "i < length (f_p f) \<and>
      (\<forall>j<length (f_p f). j \<noteq> i \<longrightarrow> flock_skip L f s i j) \<longrightarrow>
       force_acc L (apply_force L E rnd f s) (f_p f ! i) = force_acc L s (f_p f ! i)"
  proof (intro impI, elim conjE)
    assume i: "i < length (f_p f)"
      and others: "\<forall>j<length (f_p f). j \<noteq> i \<longrightarrow> flock_skip L f s i j"
    have "\<forall>k \<in> set (filter (\<lambda>k. f_p f ! k = f_p f ! i) [0..<length (f_p f)]).
        flock_a_i L E f (predator L E s) s k = (Fin 0, Fin 0, Fin 0)"
      using flock_a_i_same_particle[OF others] by simp
    then show "force_acc L (apply_force L E rnd f s) (f_p f ! i) = force_acc L s (f_p f ! i)"
      unfolding written by (rule fold_add_zero)
  qed
  show ?thesis
    using written once visible test none by blast
qed


lemma hunted_position:
  "position layout10 hunted 0 = (Fin 0, Fin 0, Fin 0)"
  "position layout10 hunted 1 = (Fin 2, Fin 0, Fin 0)"
  by (simp_all add: position_def layout10_def hunted_def cruising_def particle_def
      vec3_create_def slot_def rd_def nth_append)

lemma hunted_velocity:
  "velocity layout10 hunted 0 = (Fin 1, Fin 0, Fin 0)"
  "velocity layout10 hunted 1 = (Fin 1, Fin 0, Fin 0)"
  by (simp_all add: velocity_def layout10_def hunted_def cruising_def particle_def
      vec3_create_def slot_def rd_def nth_append)

lemma hunted_force: "force_acc layout10 hunted 0 = (Fin 0, Fin 0, Fin 0)"
  by (simp add: force_acc_def layout10_def hunted_def cruising_def particle_def
      vec3_create_def slot_def rd_def nth_append)

lemma hunted_predator: "predator layout10 hunt hunted = (Fin 0, Fin 0, Fin 2)"
  by (simp add: predator_def hunt_def layout10_def hunted_def cruising_def at_rest_def
      particle_def vec3_create_def rd_int_def rd_def nth_append)

lemma hunted_x_ij:
  "f_p f = [0, 1] \<Longrightarrow> flock_x_ij layout10 f hunted 0 1 = (Fin 2, Fin 0, Fin 0)"
  using hunted_position by (simp add: flock_x_ij_def vec3_sub_def jsub_def)

lemma hunted_d_ij:
  "f_p f = [0, 1] \<Longrightarrow> flock_d_ij layout10 f hunted 0 1 = Fin 2"
  using hunted_x_ij[of f] by (simp add: flock_d_ij_def vec3_length_def)

lemma hunted_t_ij:
  "f_p f = [0, 1] \<Longrightarrow> flock_t_ij layout10 f hunted 0 1 = Fin 0"
  using hunted_velocity hunted_x_ij[of f]
  by (simp add: flock_t_ij_def vec3_angle_def vec3_normalize_def
      vec3_scale_def vec3_dot_def jgt_def Let_def)

lemma hunted_obstacle:
  "f_p f = [0, 1] \<Longrightarrow> f_koa f = Fin 1 \<Longrightarrow>
    flock_obstacle layout10 f (predator layout10 hunt hunted) hunted 0
      = (Fin 0, Fin 0, Fin (- 0.5))"
  using hunted_position
  by (simp add: flock_obstacle_def hunted_predator vec3_sub_def jsub_def vec3_length_def
      vec3_scale_def Let_def)

lemma hunted_goal:
  "f_p f = [0, 1] \<Longrightarrow> f_kgs f = Fin 1 \<Longrightarrow>
    flock_goal layout10 hunt f hunted 0 = (Fin 0, Fin 1, Fin 0)"
  using hunted_position
  by (simp add: flock_goal_def hunt_def vec3_sub_def jsub_def vec3_length_def
      vec3_scale_def Let_def)

lemma flock_wide_coefficients:
  "f_enabled flock_wide" "f_type flock_wide = FORCE_FLOCK"
  "f_kv flock_wide = Fin 1" "f_kc flock_wide = Fin 1"
  "f_koa flock_wide = Fin 1" "f_kgs flock_wide = Fin 1"
  by (simp_all add: flock_wide_def init_boid_def new_force_def)

lemma flock_wide_sees: "\<not> flock_skip layout10 flock_wide hunted 0 1"
  using hunted_d_ij[OF flock_wide_fields(1)] hunted_t_ij[OF flock_wide_fields(1)]
  by (simp add: flock_skip_def flock_wide_fields jgt_def)

lemma flock_wide_visible:
  "filter (\<lambda>j. \<not> flock_skip layout10 flock_wide hunted 0 j) [0..<length (f_p flock_wide)]
    = [1]"
  using flock_wide_sees by (simp add: flock_wide_fields flock_skip_self)

lemma flock_wide_hunted_weight: "flock_weight layout10 flock_wide hunted 0 1 = Fin 1"
  using hunted_d_ij[OF flock_wide_fields(1)] hunted_t_ij[OF flock_wide_fields(1)]
  by (simp add: flock_weight_def flock_wide_fields flock_k_d_def flock_k_t_def)

lemma flock_wide_hunted_avoidance:
  "flock_avoidance layout10 flock_wide hunted 0 1 = (Fin (- 2), Fin 0, Fin 0)"
  using hunted_d_ij[OF flock_wide_fields(1)] hunted_x_ij[OF flock_wide_fields(1)]
    flock_wide_hunted_weight
  by (simp add: flock_avoidance_def flock_x_hat_def flock_wide_fields vec3_scale_def)

lemma flock_wide_hunted_matching:
  "flock_matching layout10 flock_wide hunted 0 1 = (Fin 0, Fin 0, Fin 0)"
  using hunted_velocity flock_wide_hunted_weight
  by (simp add: flock_matching_def flock_wide_fields flock_wide_coefficients vec3_sub_def
      jsub_def vec3_scale_def)

lemma flock_wide_hunted_centering:
  "flock_centering layout10 flock_wide hunted 0 1 = (Fin 2, Fin 0, Fin 0)"
  using hunted_x_ij[OF flock_wide_fields(1)] flock_wide_hunted_weight
  by (simp add: flock_centering_def flock_wide_coefficients vec3_scale_def)

lemma flock_short_hunted_skips: "flock_skip layout10 flock_short hunted 0 1"
  using hunted_d_ij[OF flock_short_fields(3)]
  by (simp add: flock_skip_def flock_short_fields jgt_def)

lemma flock_twice_fields:
  "f_enabled flock_twice" "f_type flock_twice = FORCE_FLOCK" "f_p flock_twice = [0, 0]"
  by (simp_all add: flock_twice_def init_boid_def new_force_def)

theorem flock_once_per_neighbour_witness:
  "wf_layout layout10 \<and> f_enabled flock_wide \<and> f_type flock_wide = FORCE_FLOCK \<and>
   distinct (f_p flock_wide) \<and> 0 < length (f_p flock_wide) \<and>
   filter (\<lambda>j. \<not> flock_skip layout10 flock_wide hunted 0 j) [0..<length (f_p flock_wide)]
     = [1] \<and>
   flock_obstacle layout10 flock_wide (predator layout10 hunt hunted) hunted 0
     = (Fin 0, Fin 0, Fin (- 0.5)) \<and>
   flock_goal layout10 hunt flock_wide hunted 0 = (Fin 0, Fin 1, Fin 0) \<and>
   force_acc layout10 (apply_force layout10 hunt calm flock_wide hunted) 0
     = (Fin 0, Fin 1, Fin (- 0.5)) \<and>
   f_enabled flock_short \<and> f_type flock_short = FORCE_FLOCK \<and>
   distinct (f_p flock_short) \<and> length (f_p flock_short) = 2 \<and>
   flock_skip layout10 flock_short hunted 0 1 \<and>
   flock_obstacle layout10 flock_short (predator layout10 hunt hunted) hunted 0
     = (Fin 0, Fin 0, Fin (- 0.5)) \<and>
   flock_goal layout10 hunt flock_short hunted 0 = (Fin 0, Fin 1, Fin 0) \<and>
   force_acc layout10 (apply_force layout10 hunt calm flock_short hunted) 0
     = (Fin 0, Fin 0, Fin 0) \<and>
   f_enabled flock_twice \<and> f_type flock_twice = FORCE_FLOCK \<and> f_p flock_twice = [0, 0] \<and>
   flock_skip layout10 flock_twice hunted 0 1 \<and>
   force_acc layout10 (apply_force layout10 hunt calm flock_twice hunted) 0
     = (Fin 0, Fin 0, Fin 0)"
proof -
  have dw: "distinct (f_p flock_wide)" and iw: "0 < length (f_p flock_wide)"
    by (simp_all add: flock_wide_fields)
  have d: "distinct (f_p flock_short)" and n: "length (f_p flock_short) = 2"
    and i: "0 < length (f_p flock_short)"
    by (simp_all add: flock_short_fields)
  have others: "\<forall>j<length (f_p flock_short). j \<noteq> 0 \<longrightarrow>
      flock_skip layout10 flock_short hunted 0 j"
    using flock_short_hunted_skips by (auto simp add: n less_Suc_eq numeral_2_eq_2)
  have ow: "flock_obstacle layout10 flock_wide (predator layout10 hunt hunted) hunted 0
      = (Fin 0, Fin 0, Fin (- 0.5))"
    by (rule hunted_obstacle[OF flock_wide_fields(1) flock_wide_coefficients(5)])
  have gw: "flock_goal layout10 hunt flock_wide hunted 0 = (Fin 0, Fin 1, Fin 0)"
    by (rule hunted_goal[OF flock_wide_fields(1) flock_wide_coefficients(6)])
  have os: "flock_obstacle layout10 flock_short (predator layout10 hunt hunted) hunted 0
      = (Fin 0, Fin 0, Fin (- 0.5))"
    by (rule hunted_obstacle[OF flock_short_fields(3,5)])
  have gs: "flock_goal layout10 hunt flock_short hunted 0 = (Fin 0, Fin 1, Fin 0)"
    by (rule hunted_goal[OF flock_short_fields(3,6)])
  note wide_thm = flock_once_per_neighbour [OF wf_layout10 flock_wide_coefficients(1,2),
      of hunt calm hunted 0]
  have a0: "flock_a_i layout10 hunt flock_wide (predator layout10 hunt hunted) hunted 0
      = (Fin 0, Fin 1, Fin (- 0.5))"
    using flock_wide_hunted_avoidance flock_wide_hunted_matching flock_wide_hunted_centering
    unfolding wide_thm [THEN conjunct2, THEN conjunct2, THEN conjunct1, THEN spec, of 0]
      flock_wide_visible ow gw
    by (simp add: vec3_add_def)
  have wide: "force_acc layout10 (apply_force layout10 hunt calm flock_wide hunted) 0
      = (Fin 0, Fin 1, Fin (- 0.5))"
    using wide_thm [THEN conjunct2, THEN conjunct1, THEN mp, OF conjI, OF dw iw]
      hunted_force a0
    by (simp add: flock_wide_fields vec3_add_def)
  have short: "force_acc layout10 (apply_force layout10 hunt calm flock_short hunted) 0
      = (Fin 0, Fin 0, Fin 0)"
    using flock_once_per_neighbour [OF wf_layout10 flock_short_fields(1,2),
        of hunt calm hunted 0, THEN conjunct2, THEN conjunct2, THEN conjunct2,
        THEN conjunct2, THEN mp, OF conjI, OF i others]
      hunted_force
    by (simp add: flock_short_fields)
  have it: "0 < length (f_p flock_twice)"
    by (simp add: flock_twice_fields)
  have skips: "flock_skip layout10 flock_twice hunted 0 1"
    using hunted_position
    by (simp add: flock_skip_def flock_d_ij_def flock_x_ij_def flock_twice_fields
        vec3_sub_def jsub_def vec3_length_def)
  have others_twice: "\<forall>j<length (f_p flock_twice). j \<noteq> 0 \<longrightarrow>
      flock_skip layout10 flock_twice hunted 0 j"
    using skips by (auto simp add: flock_twice_fields less_Suc_eq numeral_2_eq_2)
  have twice: "force_acc layout10 (apply_force layout10 hunt calm flock_twice hunted) 0
      = (Fin 0, Fin 0, Fin 0)"
    using flock_once_per_neighbour [OF wf_layout10 flock_twice_fields(1,2),
        of hunt calm hunted 0, THEN conjunct2, THEN conjunct2, THEN conjunct2,
        THEN conjunct2, THEN mp, OF conjI, OF it others_twice]
      hunted_force
    by (simp add: flock_twice_fields)
  show ?thesis
    using wf_layout10 flock_wide_coefficients(1,2) dw iw flock_wide_visible ow gw wide
      flock_short_fields(1,2) d n flock_short_hunted_skips os gs short
      flock_twice_fields skips twice
    by simp
qed

subsection \<open>Vortex\<close>


















subsection \<open>Drawing\<close>

lemma spring_colour_cases:
  "spring_colour lr p0 p1 =
    (if jlt (jabs (jsub (spring_len p0 p1) lr)) (Fin 0.01) then (Fin 1, Fin 1, Fin 1)
     else if jle (jsub (Fin 1) (jdiv (jabs (jsub (spring_len p0 p1) lr)) lr)) (Fin 0.33)
       then (Fin 1, jsub (Fin 1) (jdiv (jabs (jsub (spring_len p0 p1) lr)) lr),
             jsub (Fin 1) (jdiv (jabs (jsub (spring_len p0 p1) lr)) lr))
       else (jsub (Fin 1) (jdiv (jabs (jsub (spring_len p0 p1) lr)) lr),
             jsub (Fin 1) (jdiv (jabs (jsub (spring_len p0 p1) lr)) lr), Fin 1))"
  by (simp add: spring_colour_def epsilon_def Let_def)

lemma spring_colour_deviation:
  assumes "jabs (jsub (spring_len p0 p1) lr) = jabs (jsub (spring_len q0 q1) lr)"
  shows "spring_colour lr p0 p1 = spring_colour lr q0 q1"
  by (simp add: spring_colour_cases assms)

text \<open>
  Claim C9, with the colours as the code computes them. Drawing a spring reloads
  exactly 14 floats, two vertices of three position, three colour and one flag
  component, at the element offset \<open>index * 14\<close> (the byte offset is that times the
  float size); drawing any other force reloads nothing. The two vertices share one
  colour, which depends only on the absolute deviation of the length from the
  natural length, so it is the same in compression and in extension: white when the
  deviation is below 0.01; otherwise, with \<open>delta = 1 - deviation / lr\<close>, the colour
  \<open>(delta, delta, 1)\<close> while \<open>delta > 0.33\<close> and \<open>(1, delta, delta)\<close> from there on.
\<close>

theorem spring_draw:
  "(f_type f = FORCE_SPRING \<longrightarrow>
      draw f vbo index enabled p0 p1 gl =
        gl @ [(vbo_loc vbo, (index * 14) * FSIZE vbo, spring_vertices f enabled p0 p1)] \<and>
      length (spring_vertices f enabled p0 p1) = 14 \<and>
      spring_vertices f enabled p0 p1 =
        [vx p0, vy p0, vz p0,
         vx (spring_colour (f_lr f) p0 p1), vy (spring_colour (f_lr f) p0 p1),
         vz (spring_colour (f_lr f) p0 p1), flag (enabled \<and> f_enabled f),
         vx p1, vy p1, vz p1,
         vx (spring_colour (f_lr f) p0 p1), vy (spring_colour (f_lr f) p0 p1),
         vz (spring_colour (f_lr f) p0 p1), flag (enabled \<and> f_enabled f)]) \<and>
   (f_type f \<noteq> FORCE_SPRING \<longrightarrow> draw f vbo index enabled p0 p1 gl = gl) \<and>
   (jlt (jabs (jsub (spring_len p0 p1) lr)) (Fin 0.01) \<longrightarrow>
      spring_colour lr p0 p1 = (Fin 1, Fin 1, Fin 1)) \<and>
   (\<not> jlt (jabs (jsub (spring_len p0 p1) lr)) (Fin 0.01) \<longrightarrow>
      spring_colour lr p0 p1 =
        (if jle (jsub (Fin 1) (jdiv (jabs (jsub (spring_len p0 p1) lr)) lr)) (Fin 0.33)
         then (Fin 1, jsub (Fin 1) (jdiv (jabs (jsub (spring_len p0 p1) lr)) lr),
               jsub (Fin 1) (jdiv (jabs (jsub (spring_len p0 p1) lr)) lr))
         else (jsub (Fin 1) (jdiv (jabs (jsub (spring_len p0 p1) lr)) lr),
               jsub (Fin 1) (jdiv (jabs (jsub (spring_len p0 p1) lr)) lr), Fin 1))) \<and>
   (jabs (jsub (spring_len p0 p1) lr) = jabs (jsub (spring_len q0 q1) lr) \<longrightarrow>
      spring_colour lr p0 p1 = spring_colour lr q0 q1)"
proof -
  have a: "f_type f = FORCE_SPRING \<longrightarrow>
      draw f vbo index enabled p0 p1 gl =
        gl @ [(vbo_loc vbo, (index * 14) * FSIZE vbo, spring_vertices f enabled p0 p1)]"
    by (simp add: draw_def reload_def)
  have b: "f_type f \<noteq> FORCE_SPRING \<longrightarrow> draw f vbo index enabled p0 p1 gl = gl"
    by (simp add: draw_def)
  have c: "length (spring_vertices f enabled p0 p1) = 14"
    by (simp add: spring_vertices_def Let_def)
  have d: "spring_vertices f enabled p0 p1 =
        [vx p0, vy p0, vz p0,
         vx (spring_colour (f_lr f) p0 p1), vy (spring_colour (f_lr f) p0 p1),
         vz (spring_colour (f_lr f) p0 p1), flag (enabled \<and> f_enabled f),
         vx p1, vy p1, vz p1,
         vx (spring_colour (f_lr f) p0 p1), vy (spring_colour (f_lr f) p0 p1),
         vz (spring_colour (f_lr f) p0 p1), flag (enabled \<and> f_enabled f)]"
    by (simp add: spring_vertices_def Let_def)
  have e: "jlt (jabs (jsub (spring_len p0 p1) lr)) (Fin 0.01) \<longrightarrow>
      spring_colour lr p0 p1 = (Fin 1, Fin 1, Fin 1)"
    by (simp add: spring_colour_cases)
  have g: "\<not> jlt (jabs (jsub (spring_len p0 p1) lr)) (Fin 0.01) \<longrightarrow>
      spring_colour lr p0 p1 =
        (if jle (jsub (Fin 1) (jdiv (jabs (jsub (spring_len p0 p1) lr)) lr)) (Fin 0.33)
         then (Fin 1, jsub (Fin 1) (jdiv (jabs (jsub (spring_len p0 p1) lr)) lr),
               jsub (Fin 1) (jdiv (jabs (jsub (spring_len p0 p1) lr)) lr))
         else (jsub (Fin 1) (jdiv (jabs (jsub (spring_len p0 p1) lr)) lr),
               jsub (Fin 1) (jdiv (jabs (jsub (spring_len p0 p1) lr)) lr), Fin 1))"
    by (simp add: spring_colour_cases)
  have h: "jabs (jsub (spring_len p0 p1) lr) = jabs (jsub (spring_len q0 q1) lr) \<longrightarrow>
      spring_colour lr p0 p1 = spring_colour lr q0 q1"
    using spring_colour_deviation by blast
  show ?thesis
    using a b c d e g h by blast
qed

lemma spring_len_near: "spring_len origin near_end = Fin 0.5"
  by (simp add: spring_len_def origin_def near_end_def jsub_def real_sqrt_divide)

lemma spring_len_far: "spring_len origin far_end = Fin 1.5"
  by (simp add: spring_len_def origin_def far_end_def jsub_def real_sqrt_divide sqrt_9)

lemma colour_near: "spring_colour (Fin 1) origin near_end = (Fin 0.5, Fin 0.5, Fin 1)"
  by (simp add: spring_colour_cases spring_len_near jsub_def jle_def)

lemma colour_far: "spring_colour (Fin 1) origin far_end = (Fin 0.5, Fin 0.5, Fin 1)"
  by (simp add: spring_colour_cases spring_len_far jsub_def jle_def)

text \<open>
  A spring of natural length 1 compressed to 0.5 is drawn in (0.5, 0.5, 1), which is
  not on the gradient from green to red; stretched to 1.5 it has the same colour,
  which is not on the gradient from blue to red either.
\<close>

theorem spring_colour_counterexample:
  "jlt (spring_len origin near_end) (Fin 1) \<and>
   spring_colour (Fin 1) origin near_end = (Fin 0.5, Fin 0.5, Fin 1) \<and>
   \<not> on_gradient green red (spring_colour (Fin 1) origin near_end) \<and>
   jlt (Fin 1) (spring_len origin far_end) \<and>
   spring_colour (Fin 1) origin far_end = spring_colour (Fin 1) origin near_end \<and>
   \<not> on_gradient blue red (spring_colour (Fin 1) origin far_end)"
proof -
  have "\<not> on_gradient green red (Fin 0.5, Fin 0.5, Fin 1)"
    by (simp add: on_gradient_def mix_def green_def red_def vec3_add_def vec3_scale_def)
  moreover have "\<not> on_gradient blue red (Fin 0.5, Fin 0.5, Fin 1)"
    by (simp add: on_gradient_def mix_def blue_def red_def vec3_add_def vec3_scale_def)
  ultimately show ?thesis
    by (simp add: colour_near colour_far spring_len_near spring_len_far)
qed


theorem spring_draw_witness:
  "f_type spring_unit = FORCE_SPRING \<and>
   draw spring_unit box 3 True origin near_end []
     = [(1, 168, [Fin 0, Fin 0, Fin 0, Fin 0.5, Fin 0.5, Fin 1, Fin 1,
                  Fin 0.5, Fin 0, Fin 0, Fin 0.5, Fin 0.5, Fin 1, Fin 1])] \<and>
   f_type planetary \<noteq> FORCE_SPRING \<and>
   draw planetary box 3 True origin near_end [] = [] \<and>
   \<not> jlt (jabs (jsub (spring_len origin near_end) (Fin 1))) (Fin 0.01) \<and>
   jabs (jsub (spring_len origin near_end) (Fin 1))
     = jabs (jsub (spring_len origin far_end) (Fin 1)) \<and>
   spring_colour (Fin 1) origin near_end = spring_colour (Fin 1) origin far_end \<and>
   jlt (jabs (jsub (spring_len origin origin) (Fin 0))) (Fin 0.01) \<and>
   spring_colour (Fin 0) origin origin = (Fin 1, Fin 1, Fin 1)"
proof -
  have tag: "f_type spring_unit = FORCE_SPRING" "f_lr spring_unit = Fin 1"
    "f_enabled spring_unit"
    by (simp_all add: spring_unit_def init_spring_def new_force_def)
  have other: "f_type planetary \<noteq> FORCE_SPRING"
    by (simp add: planetary_def new_force_def force_tags)
  have len0: "spring_len origin origin = Fin 0"
    by (simp add: spring_len_def origin_def jsub_def)
  have verts: "spring_vertices spring_unit True origin near_end
      = [Fin 0, Fin 0, Fin 0, Fin 0.5, Fin 0.5, Fin 1, Fin 1,
         Fin 0.5, Fin 0, Fin 0, Fin 0.5, Fin 0.5, Fin 1, Fin 1]"
    unfolding spring_vertices_def tag(2) colour_near Let_def
    using tag(3) by (simp add: flag_def origin_def near_end_def)
  have drawn: "draw spring_unit box 3 True origin near_end []
      = [(1, 168, spring_vertices spring_unit True origin near_end)]"
    using spring_draw [of spring_unit box 3 True origin near_end "[]" "Fin 1" origin far_end]
      tag
    by (simp add: box_def)
  have none: "draw planetary box 3 True origin near_end [] = []"
    using spring_draw [of planetary box 3 True origin near_end "[]" "Fin 0" origin origin]
      other
    by simp
  have white: "spring_colour (Fin 0) origin origin = (Fin 1, Fin 1, Fin 1)"
    using spring_draw [of planetary box 3 True origin origin "[]" "Fin 0" origin origin]
    by (simp add: len0 jsub_def)
  show ?thesis
    using tag other drawn none white
    by (simp add: verts colour_near colour_far spring_len_near spring_len_far len0 jsub_def)
qed

end
